theory Spec2Isabelle
  imports Main
begin

section \<open>Strings, numbers and values of the source language\<close>

text \<open>
  The repository is JavaScript. A JavaScript string is modelled as a \<^typ>\<open>string\<close>,
  a list of characters; a character stands for a code unit below 256, and the classes of
  the regular expressions and the lower-casing of the source are given on all of them.
  A date is the number of milliseconds since the epoch, an \<^typ>\<open>int\<close>; an invalid
  date is \<open>None\<close>. A header that may be absent is an \<^typ>\<open>'a option\<close>.
\<close>

definition falsy :: "string option \<Rightarrow> bool" where
  \<comment> \<open>\<open>!x\<close> for a value that is a string, \<open>undefined\<close> or \<open>null\<close>\<close>
  "falsy x = (case x of None \<Rightarrow> True | Some v \<Rightarrow> v = [])"

definition is_digit :: "char \<Rightarrow> bool" where
  \<comment> \<open>the class \<open>\d\<close>\<close>
  "is_digit c = (c \<in> set ''0123456789'')"

definition is_space :: "char \<Rightarrow> bool" where
  \<comment> \<open>the class \<open>\s\<close> below 256: tab, line feed, vertical tab, form feed, carriage
      return, space, no-break space\<close>
  "is_space c =
     (c \<in> set [CHR 0x09, CHR 0x0A, CHR 0x0B, CHR 0x0C, CHR 0x0D, CHR '' '', CHR 0xA0])"

definition upper_letters :: "char list" where
  \<comment> \<open>the code units below 256 that \<open>toLowerCase\<close> changes: \<open>A\<close> to \<open>Z\<close>, and
      0xC0 to 0xDE without the multiplication sign 0xD7\<close>
  "upper_letters =
     ''ABCDEFGHIJKLMNOPQRSTUVWXYZ'' @
     [CHR 0xC0, CHR 0xC1, CHR 0xC2, CHR 0xC3, CHR 0xC4, CHR 0xC5, CHR 0xC6, CHR 0xC7,
      CHR 0xC8, CHR 0xC9, CHR 0xCA, CHR 0xCB, CHR 0xCC, CHR 0xCD, CHR 0xCE, CHR 0xCF,
      CHR 0xD0, CHR 0xD1, CHR 0xD2, CHR 0xD3, CHR 0xD4, CHR 0xD5, CHR 0xD6,
      CHR 0xD8, CHR 0xD9, CHR 0xDA, CHR 0xDB, CHR 0xDC, CHR 0xDD, CHR 0xDE]"

definition lower_letters :: "char list" where
  \<comment> \<open>what they become: each 0x20 higher\<close>
  "lower_letters =
     ''abcdefghijklmnopqrstuvwxyz'' @
     [CHR 0xE0, CHR 0xE1, CHR 0xE2, CHR 0xE3, CHR 0xE4, CHR 0xE5, CHR 0xE6, CHR 0xE7,
      CHR 0xE8, CHR 0xE9, CHR 0xEA, CHR 0xEB, CHR 0xEC, CHR 0xED, CHR 0xEE, CHR 0xEF,
      CHR 0xF0, CHR 0xF1, CHR 0xF2, CHR 0xF3, CHR 0xF4, CHR 0xF5, CHR 0xF6,
      CHR 0xF8, CHR 0xF9, CHR 0xFA, CHR 0xFB, CHR 0xFC, CHR 0xFD, CHR 0xFE]"

definition lower_char :: "char \<Rightarrow> char" where
  "lower_char c =
     (case map_of (zip upper_letters lower_letters) c of
        None \<Rightarrow> c
      | Some l \<Rightarrow> l)"

definition toLowerCase :: "string \<Rightarrow> string" where
  \<comment> \<open>\<open>String.prototype.toLowerCase\<close>\<close>
  "toLowerCase s = map lower_char s"

fun split_on :: "char \<Rightarrow> string \<Rightarrow> string list" where
  \<comment> \<open>\<open>s.split(c)\<close> for a one-character separator\<close>
  "split_on c [] = [[]]"
| "split_on c (x # xs) =
     (if x = c then [] # split_on c xs
      else (case split_on c xs of
              [] \<Rightarrow> [[x]]
            | w # ws \<Rightarrow> (x # w) # ws))"

definition index_opt :: "'a list \<Rightarrow> nat \<Rightarrow> 'a option" where
  \<comment> \<open>\<open>xs[i]\<close>: \<open>undefined\<close> out of range\<close>
  "index_opt xs i = (if i < length xs then Some (xs ! i) else None)"

definition startsWith :: "string \<Rightarrow> string \<Rightarrow> bool" where
  "startsWith s p = (take (length p) s = p)"

text \<open>
  The numbers of the source are doubles. A double that is an integer below \<open>2^53\<close> is
  \<open>Num\<close> of that integer, and the arithmetic on such numbers is exact. \<open>Big\<close> stands
  for any double of at least \<open>2^53\<close>, rounded or infinite: the model keeps of it only
  that it is that large, which decides what the program does with it.
\<close>

datatype number = Num int | Big

definition digits_value :: "string \<Rightarrow> int" where
  \<comment> \<open>the integer that a string of decimal digits denotes\<close>
  "digits_value ds = foldl (\<lambda>n c. 10 * n + (int (of_char c) - 48)) 0 ds"

definition parseInt10 :: "string \<Rightarrow> number" where
  \<comment> \<open>\<open>parseInt(ds, 10)\<close> on a string of decimal digits\<close>
  "parseInt10 ds =
     (if digits_value ds < 9007199254740992 then Num (digits_value ds) else Big)"

definition js_times :: "number \<Rightarrow> int \<Rightarrow> number" where
  \<comment> \<open>\<open>x * k\<close> for \<open>x\<close> not negative and a factor \<open>k\<close> of at least 1\<close>
  "js_times x k =
     (case x of
        Num n \<Rightarrow> if n * k < 9007199254740992 then Num (n * k) else Big
      | Big \<Rightarrow> Big)"

definition js_plus :: "nat \<Rightarrow> number \<Rightarrow> number" where
  \<comment> \<open>\<open>t + x\<close> for a clock reading \<open>t\<close> and \<open>x\<close> not negative\<close>
  "js_plus t x =
     (case x of
        Num n \<Rightarrow> if int t + n < 9007199254740992 then Num (int t + n) else Big
      | Big \<Rightarrow> Big)"

definition new_Date :: "number \<Rightarrow> int option" where
  \<comment> \<open>\<open>new Date(x)\<close>: an invalid date beyond 8640000000000000 milliseconds\<close>
  "new_Date x =
     (case x of
        Num v \<Rightarrow> if \<bar>v\<bar> \<le> 8640000000000000 then Some v else None
      | Big \<Rightarrow> None)"

text \<open>
  A field of the body of a request, as the parser of JSON delivers it: absent, \<open>null\<close>,
  a boolean, a number or a string. Of a number the program only asks whether it is zero,
  so an integer stands for it. Arrays and objects are left out.
\<close>

datatype jsvalue = VUndefined | VNull | VBool bool | VNum int | VStr string

definition falsy_value :: "jsvalue \<Rightarrow> bool" where
  \<comment> \<open>\<open>!x\<close>\<close>
  "falsy_value x =
     (case x of
        VUndefined \<Rightarrow> True
      | VNull \<Rightarrow> True
      | VBool b \<Rightarrow> \<not> b
      | VNum n \<Rightarrow> n = 0
      | VStr s \<Rightarrow> s = [])"

definition length_less :: "jsvalue \<Rightarrow> nat \<Rightarrow> bool" where
  \<comment> \<open>\<open>x.length < n\<close>: the length of a boolean or a number is \<open>undefined\<close>, and
      \<open>undefined < n\<close> is false\<close>
  "length_less x n = (case x of VStr s \<Rightarrow> length s < n | _ \<Rightarrow> False)"

section \<open>Token utilities (\<open>utils/jwt.js\<close>)\<close>

definition units :: "char \<Rightarrow> int" where
  \<comment> \<open>the table \<open>units\<close> of \<open>parseDuration\<close>, read at one of its four keys\<close>
  "units u =
     (if u = CHR ''s'' then 1000
      else if u = CHR ''m'' then 60 * 1000
      else if u = CHR ''h'' then 60 * 60 * 1000
      else 24 * 60 * 60 * 1000)"

definition duration_match :: "string \<Rightarrow> (string \<times> char) option" where
  \<comment> \<open>\<open>duration.match(/^(\d+)([smhd])$/)\<close>: the two groups, or no match\<close>
  "duration_match d =
     (if d \<noteq> [] \<and> butlast d \<noteq> [] \<and> list_all is_digit (butlast d)
         \<and> last d \<in> set ''smhd''
      then Some (butlast d, last d) else None)"

definition parseDuration :: "string \<Rightarrow> number" where
  "parseDuration duration =
     (case duration_match duration of
        None \<Rightarrow> Num (7 * 24 * 60 * 60 * 1000)
      | Some (ds, unit) \<Rightarrow> js_times (parseInt10 ds) (units unit))"

definition getRefreshTokenExpiry :: "string \<Rightarrow> nat \<Rightarrow> int option" where
  \<comment> \<open>the configured \<open>config.jwt.refreshExpiresIn\<close> and the reading of \<open>Date.now()\<close>,
      a time not before the epoch, are parameters\<close>
  "getRefreshTokenExpiry refreshExpiresIn t = new_Date (js_plus t (parseDuration refreshExpiresIn))"


definition generateAccessToken :: "(string \<Rightarrow> string \<Rightarrow> int \<Rightarrow> string) \<Rightarrow> int \<Rightarrow> string \<times> string \<Rightarrow> string" where
  \<comment> \<open>\<open>jwt.sign(payload, secret, {expiresIn})\<close> at the given clock reading; the signing
      function of the library, with the secret and lifetime of the configuration, is a
      parameter\<close>
  "generateAccessToken sign t payload = sign (fst payload) (snd payload) t"

datatype jwt_error = TokenExpiredError | JsonWebTokenError | NotBeforeError

definition verifyAccessToken ::
  "(string \<Rightarrow> int \<Rightarrow> jwt_error + string \<times> string) \<Rightarrow> int \<Rightarrow> string \<Rightarrow> jwt_error + string \<times> string" where
  \<comment> \<open>\<open>jwt.verify(token, secret)\<close>: the decoded \<open>id\<close> and \<open>email\<close>, or the error thrown\<close>
  "verifyAccessToken verify t token = verify token t"

section \<open>Data model\<close>

record user =
  u_id :: string
  u_email :: string
  u_password :: string
  u_firstName :: "string option"
  u_lastName :: "string option"
  u_isActive :: bool
  u_createdAt :: int
  u_updatedAt :: int

record refresh_token =
  rt_id :: string
  rt_token :: string
  rt_userId :: string
  rt_expiresAt :: int
  rt_createdAt :: int

datatype db_call =
  User_findUnique | User_create
  | RefreshToken_findUnique | RefreshToken_create | RefreshToken_delete
  | RefreshToken_deleteMany | Transaction

text \<open>
  The database: the two tables, and the list of the calls made to the client so far
  (a record of which operations ran; it holds no data of the tables).
\<close>

record db =
  users :: "user list"
  refreshTokens :: "refresh_token list"
  calls :: "db_call list"

text \<open>
  What is thrown: the errors of the database client for a unique constraint, a foreign
  key, a row that is not there and an argument of the wrong type; the \<open>TypeError\<close> of
  the language; and the error of \<open>bcryptjs\<close> for an argument that is not a string.
\<close>

datatype exn = P2002 | P2003 | P2025 | ValidationError | TypeError | IllegalArguments

text \<open>
  What a request gets from outside the program while it is served: the clock readings
  (\<open>Date.now()\<close> is a time not before the epoch), the value \<open>uuidv4()\<close> returns, the
  salt, and the identifiers and timestamp the database assigns to a new row.
\<close>

record env =
  newDate :: int
  dateNow :: nat
  uuidv4 :: string
  genSalt :: string
  dbUserId :: string
  dbTokenId :: string
  dbNow :: int

text \<open>
  The libraries and the configuration: \<open>bcryptjs\<close> (each function resolves or throws),
  \<open>jsonwebtoken\<close> with the configured secret, the configured refresh lifetime, and the
  default of the column \<open>isActive\<close>.
\<close>

record lib =
  bcrypt_hash :: "jsvalue \<Rightarrow> string \<Rightarrow> exn + string"
  bcrypt_compare :: "jsvalue \<Rightarrow> string \<Rightarrow> exn + bool"
  jwt_sign :: "string \<Rightarrow> string \<Rightarrow> int \<Rightarrow> string"
  jwt_verify :: "string \<Rightarrow> int \<Rightarrow> jwt_error + string \<times> string"
  refreshExpiresIn :: string
  isActiveDefault :: bool

datatype jsval = JStr string | JBool bool | JDate int | JNull

type_synonym obj = "(string \<times> jsval) list"

definition opt_str :: "string option \<Rightarrow> jsval" where
  "opt_str x = (case x of None \<Rightarrow> JNull | Some v \<Rightarrow> JStr v)"

definition user_row :: "user \<Rightarrow> obj" where
  \<comment> \<open>a row of the table of users as an object: every column\<close>
  "user_row u =
     [(''id'', JStr (u_id u)), (''email'', JStr (u_email u)),
      (''password'', JStr (u_password u)),
      (''firstName'', opt_str (u_firstName u)), (''lastName'', opt_str (u_lastName u)),
      (''isActive'', JBool (u_isActive u)),
      (''createdAt'', JDate (u_createdAt u)), (''updatedAt'', JDate (u_updatedAt u))]"

definition select_fields :: "string list \<Rightarrow> obj \<Rightarrow> obj" where
  \<comment> \<open>the option \<open>select\<close> of a query: the columns set to \<open>true\<close>\<close>
  "select_fields ks row = filter (\<lambda>kv. fst kv \<in> set ks) row"

datatype payload =
  AuthData obj string string
  | TokenData string string
  | UserData obj
  | NoData

text \<open>
  What a handler ends with: \<open>errorResponse(res, message, statusCode)\<close>,
  \<open>successResponse(res, data, message, statusCode)\<close> (the status is absent where the
  call leaves it out), \<open>next(error)\<close>, or \<open>next()\<close> with the value of \<open>req.user\<close>.
\<close>

datatype response =
  ErrorResponse string nat
  | SuccessResponse payload string "nat option"
  | NextError exn
  | Next "(string \<times> string) option"

record body =
  b_email :: jsvalue
  b_password :: jsvalue
  b_firstName :: jsvalue
  b_lastName :: jsvalue
  b_refreshToken :: jsvalue

section \<open>The database client\<close>

text \<open>
  The queries of the client that the controller uses. The constraints of the schema are
  those the documentation of the repository states: the identifiers are primary keys, the
  email of a user is unique, the value of a refresh token is unique, and a refresh token
  refers to a user. The client checks the type of an argument before it runs a query and
  throws when a string or a date is not one.
\<close>

definition logged :: "db_call \<Rightarrow> db \<Rightarrow> db" where
  "logged c s = s\<lparr>calls := calls s @ [c]\<rparr>"

definition user_findUnique_email :: "string \<Rightarrow> db \<Rightarrow> user option \<times> db" where
  "user_findUnique_email em s = (find (\<lambda>u. u_email u = em) (users s), logged User_findUnique s)"

definition user_findUnique_id :: "string \<Rightarrow> db \<Rightarrow> user option \<times> db" where
  "user_findUnique_id i s = (find (\<lambda>u. u_id u = i) (users s), logged User_findUnique s)"

definition nullable_string :: "jsvalue \<Rightarrow> string option option" where
  \<comment> \<open>an argument for an optional column of strings: a string, \<open>null\<close> or absent; any
      other value is refused\<close>
  "nullable_string v =
     (case v of
        VStr s \<Rightarrow> Some (Some s)
      | VNull \<Rightarrow> Some None
      | VUndefined \<Rightarrow> Some None
      | _ \<Rightarrow> None)"

definition user_create ::
  "lib \<Rightarrow> env \<Rightarrow> string \<Rightarrow> string \<Rightarrow> jsvalue \<Rightarrow> jsvalue \<Rightarrow> db \<Rightarrow> (exn + user) \<times> db" where
  \<comment> \<open>Modelled from the spec: the schema is not among the sources; the email of an account
      is unique and enforced by the store, the identifier is unique.\<close>
  "user_create L e em pw fn ln s =
     (let s1 = logged User_create s in
      case (nullable_string fn, nullable_string ln) of
        (Some firstName, Some lastName) \<Rightarrow>
          if (\<exists>u \<in> set (users s). u_email u = em \<or> u_id u = dbUserId e) then (Inl P2002, s1)
          else
            let u = \<lparr>u_id = dbUserId e, u_email = em, u_password = pw,
                     u_firstName = firstName, u_lastName = lastName,
                     u_isActive = isActiveDefault L,
                     u_createdAt = dbNow e, u_updatedAt = dbNow e\<rparr>
            in (Inr u, s1\<lparr>users := users s1 @ [u]\<rparr>)
      | _ \<Rightarrow> (Inl ValidationError, s1))"

definition refreshToken_create ::
  "env \<Rightarrow> string \<Rightarrow> string \<Rightarrow> int option \<Rightarrow> db \<Rightarrow> (exn + refresh_token) \<times> db" where
  \<comment> \<open>Modelled from the spec: the schema is not among the sources; the value of a
      long-lived token is unique across all records and refers to its owning account.
      The expiry is a date; an invalid date is refused.\<close>
  "refreshToken_create e tok uid expiry s =
     (let s1 = logged RefreshToken_create s in
      case expiry of
        None \<Rightarrow> (Inl ValidationError, s1)
      | Some ex \<Rightarrow>
          if (\<exists>r \<in> set (refreshTokens s). rt_token r = tok \<or> rt_id r = dbTokenId e)
          then (Inl P2002, s1)
          else if \<not> (\<exists>u \<in> set (users s). u_id u = uid) then (Inl P2003, s1)
          else
            let r = \<lparr>rt_id = dbTokenId e, rt_token = tok, rt_userId = uid, rt_expiresAt = ex,
                     rt_createdAt = dbNow e\<rparr>
            in (Inr r, s1\<lparr>refreshTokens := refreshTokens s1 @ [r]\<rparr>))"

definition refreshToken_findUnique ::
  "string \<Rightarrow> db \<Rightarrow> (refresh_token \<times> user option) option \<times> db" where
  \<comment> \<open>\<open>findUnique({where: {token}, include: {user: true}})\<close>\<close>
  "refreshToken_findUnique tok s =
     (case find (\<lambda>r. rt_token r = tok) (refreshTokens s) of
        None \<Rightarrow> None
      | Some r \<Rightarrow> Some (r, find (\<lambda>u. u_id u = rt_userId r) (users s)),
      logged RefreshToken_findUnique s)"

definition refreshToken_delete :: "string \<Rightarrow> db \<Rightarrow> (exn + unit) \<times> db" where
  \<comment> \<open>\<open>delete({where: {id}})\<close>: throws when no row has the identifier\<close>
  "refreshToken_delete i s =
     (let s1 = logged RefreshToken_delete s in
      if (\<exists>r \<in> set (refreshTokens s). rt_id r = i)
      then (Inr (), s1\<lparr>refreshTokens := filter (\<lambda>r. rt_id r \<noteq> i) (refreshTokens s1)\<rparr>)
      else (Inl P2025, s1))"

definition refreshToken_deleteMany :: "(refresh_token \<Rightarrow> bool) \<Rightarrow> db \<Rightarrow> nat \<times> db" where
  \<comment> \<open>\<open>deleteMany({where})\<close>: the number of rows deleted\<close>
  "refreshToken_deleteMany P s =
     (let s1 = logged RefreshToken_deleteMany s in
      (length (filter P (refreshTokens s)),
       s1\<lparr>refreshTokens := filter (\<lambda>r. \<not> P r) (refreshTokens s1)\<rparr>))"

definition transaction ::
  "(db \<Rightarrow> (exn + 'a) \<times> db) \<Rightarrow> (db \<Rightarrow> (exn + 'b) \<times> db) \<Rightarrow> db \<Rightarrow> (exn + 'a \<times> 'b) \<times> db" where
  \<comment> \<open>\<open>$transaction([op1, op2])\<close>: the two operations in order; when one throws, the
      tables are as they were before the call\<close>
  "transaction op1 op2 s =
     (let s0 = logged Transaction s in
      case op1 s0 of
        (Inl x, s1) \<Rightarrow> (Inl x, s0\<lparr>calls := calls s1\<rparr>)
      | (Inr a, s1) \<Rightarrow>
          (case op2 s1 of
             (Inl x, s2) \<Rightarrow> (Inl x, s0\<lparr>calls := calls s2\<rparr>)
           | (Inr b, s2) \<Rightarrow> (Inr (a, b), s2)))"

section \<open>The controller (\<open>controllers/authController.js\<close>)\<close>

definition nsa :: "char \<Rightarrow> bool" where
  \<comment> \<open>the class \<open>[^\s@]\<close>\<close>
  "nsa c = (\<not> is_space c \<and> c \<noteq> CHR ''@'')"

definition emailRegex_test :: "string \<Rightarrow> bool" where
  \<comment> \<open>\<open>/^[^\s@]+@[^\s@]+\.[^\s@]+$/.test(email)\<close> on a string: the text before the first
      \<open>@\<close> is the local part; the rest has a dot that is neither its first nor its last
      character\<close>
  "emailRegex_test s =
     (let lpart = takeWhile (\<lambda>c. c \<noteq> CHR ''@'') s;
          rest = dropWhile (\<lambda>c. c \<noteq> CHR ''@'') s
      in lpart \<noteq> [] \<and> list_all nsa lpart \<and>
         (case rest of
            [] \<Rightarrow> False
          | _ # dpart \<Rightarrow> list_all nsa dpart
              \<and> list_ex (\<lambda>i. dpart ! i = CHR ''.'') [1 ..< length dpart - 1]))"

definition emailRegex_test_value :: "jsvalue \<Rightarrow> bool" where
  \<comment> \<open>\<open>emailRegex.test(email)\<close>: a value that is not a string is converted to text
      first; the text of \<open>undefined\<close>, \<open>null\<close>, a boolean or a number has no \<open>@\<close>,
      so the pattern does not match it\<close>
  "emailRegex_test_value x = (case x of VStr s \<Rightarrow> emailRegex_test s | _ \<Rightarrow> False)"

definition or_null :: "jsvalue \<Rightarrow> jsvalue" where
  \<comment> \<open>\<open>x || null\<close>\<close>
  "or_null x = (if falsy_value x then VNull else x)"

definition register :: "lib \<Rightarrow> env \<Rightarrow> body \<Rightarrow> db \<Rightarrow> response \<times> db" where
  "register L e b s =
     (if falsy_value (b_email b) \<or> falsy_value (b_password b)
      then (ErrorResponse ''Email and password are required'' 400, s)
      else if \<not> emailRegex_test_value (b_email b)
      then (ErrorResponse ''Invalid email format'' 400, s)
      else if length_less (b_password b) 8
      then (ErrorResponse ''Password must be at least 8 characters long'' 400, s)
      else case b_email b of
        VStr email \<Rightarrow>
          (case user_findUnique_email (toLowerCase email) s of
             (Some existingUser, s1) \<Rightarrow>
               (ErrorResponse ''User with this email already exists'' 409, s1)
           | (None, s1) \<Rightarrow>
               (case bcrypt_hash L (b_password b) (genSalt e) of
                  Inl x \<Rightarrow> (NextError x, s1)
                | Inr hashedPassword \<Rightarrow>
                    (case user_create L e (toLowerCase email) hashedPassword
                            (or_null (b_firstName b)) (or_null (b_lastName b)) s1 of
                       (Inl x, s2) \<Rightarrow> (NextError x, s2)
                     | (Inr u, s2) \<Rightarrow>
                         let user = select_fields
                               [''id'', ''email'', ''firstName'', ''lastName'', ''isActive'',
                                ''createdAt''] (user_row u);
                             accessToken = generateAccessToken (jwt_sign L) (int (dateNow e))
                                             (u_id u, u_email u);
                             refreshToken = uuidv4 e
                         in (case refreshToken_create e refreshToken (u_id u)
                                    (getRefreshTokenExpiry (refreshExpiresIn L) (dateNow e))
                                    s2 of
                               (Inl x, s3) \<Rightarrow> (NextError x, s3)
                             | (Inr r, s3) \<Rightarrow>
                                 (SuccessResponse (AuthData user accessToken refreshToken)
                                    ''User registered successfully'' (Some 201), s3)))))
      | _ \<Rightarrow> (NextError TypeError, s))"

definition login :: "lib \<Rightarrow> env \<Rightarrow> body \<Rightarrow> db \<Rightarrow> response \<times> db" where
  \<comment> \<open>\<open>email.toLowerCase()\<close> throws when the email is not a string\<close>
  "login L e b s =
     (if falsy_value (b_email b) \<or> falsy_value (b_password b)
      then (ErrorResponse ''Email and password are required'' 400, s)
      else case b_email b of
        VStr email \<Rightarrow>
          (case user_findUnique_email (toLowerCase email) s of
             (None, s1) \<Rightarrow> (ErrorResponse ''Invalid email or password'' 401, s1)
           | (Some user, s1) \<Rightarrow>
               if \<not> u_isActive user then (ErrorResponse ''Account is deactivated'' 403, s1)
               else
                 (case bcrypt_compare L (b_password b) (u_password user) of
                    Inl x \<Rightarrow> (NextError x, s1)
                  | Inr isPasswordValid \<Rightarrow>
                      if \<not> isPasswordValid
                      then (ErrorResponse ''Invalid email or password'' 401, s1)
                      else
                        let accessToken = generateAccessToken (jwt_sign L) (int (dateNow e))
                                            (u_id user, u_email user);
                            refreshToken = uuidv4 e
                        in (case refreshToken_create e refreshToken (u_id user)
                                   (getRefreshTokenExpiry (refreshExpiresIn L) (dateNow e))
                                   s1 of
                              (Inl x, s2) \<Rightarrow> (NextError x, s2)
                            | (Inr r, s2) \<Rightarrow>
                                let userResponse =
                                      [(''id'', JStr (u_id user)),
                                       (''email'', JStr (u_email user)),
                                       (''firstName'', opt_str (u_firstName user)),
                                       (''lastName'', opt_str (u_lastName user)),
                                       (''isActive'', JBool (u_isActive user)),
                                       (''createdAt'', JDate (u_createdAt user))]
                                in (SuccessResponse
                                      (AuthData userResponse accessToken refreshToken)
                                      ''Login successful'' None, s2))))
      | _ \<Rightarrow> (NextError TypeError, s))"

definition refreshToken :: "lib \<Rightarrow> env \<Rightarrow> body \<Rightarrow> db \<Rightarrow> response \<times> db" where
  \<comment> \<open>the client refuses a token that is not a string\<close>
  "refreshToken L e b s =
     (if falsy_value (b_refreshToken b)
      then (ErrorResponse ''Refresh token is required'' 400, s)
      else case b_refreshToken b of
        VStr token \<Rightarrow>
          (case refreshToken_findUnique token s of
             (None, s1) \<Rightarrow> (ErrorResponse ''Invalid refresh token'' 401, s1)
           | (Some (storedToken, storedUser), s1) \<Rightarrow>
               if newDate e > rt_expiresAt storedToken
               then (case refreshToken_delete (rt_id storedToken) s1 of
                       (Inl x, s2) \<Rightarrow> (NextError x, s2)
                     | (Inr _, s2) \<Rightarrow> (ErrorResponse ''Refresh token has expired'' 401, s2))
               else
                 (case storedUser of
                    None \<Rightarrow> (NextError TypeError, s1)
                  | Some user \<Rightarrow>
                      if \<not> u_isActive user
                      then (ErrorResponse ''Account is deactivated'' 403, s1)
                      else
                        let accessToken = generateAccessToken (jwt_sign L) (int (dateNow e))
                                            (u_id user, u_email user);
                            newRefreshToken = uuidv4 e
                        in (case transaction
                                   (refreshToken_delete (rt_id storedToken))
                                   (refreshToken_create e newRefreshToken (u_id user)
                                      (getRefreshTokenExpiry (refreshExpiresIn L) (dateNow e)))
                                   s1 of
                              (Inl x, s2) \<Rightarrow> (NextError x, s2)
                            | (Inr _, s2) \<Rightarrow>
                                (SuccessResponse (TokenData accessToken newRefreshToken)
                                   ''Token refreshed successfully'' None, s2))))
      | _ \<Rightarrow> (NextError ValidationError, logged RefreshToken_findUnique s))"

definition logout :: "body \<Rightarrow> db \<Rightarrow> response \<times> db" where
  \<comment> \<open>the client refuses a token that is not a string\<close>
  "logout b s =
     (if falsy_value (b_refreshToken b)
      then (ErrorResponse ''Refresh token is required'' 400, s)
      else case b_refreshToken b of
        VStr token \<Rightarrow>
          (case refreshToken_deleteMany (\<lambda>r. rt_token r = token) s of
             (n, s1) \<Rightarrow> (SuccessResponse NoData ''Logged out successfully'' None, s1))
      | _ \<Rightarrow> (NextError ValidationError, logged RefreshToken_deleteMany s))"

definition logoutAll :: "string \<Rightarrow> db \<Rightarrow> response \<times> db" where
  \<comment> \<open>the argument is \<open>req.user.id\<close>\<close>
  "logoutAll userId s =
     (case refreshToken_deleteMany (\<lambda>r. rt_userId r = userId) s of
        (n, s1) \<Rightarrow>
          (SuccessResponse NoData ''Logged out from all devices successfully'' None, s1))"

definition getMe :: "string \<Rightarrow> db \<Rightarrow> response \<times> db" where
  \<comment> \<open>the argument is \<open>req.user.id\<close>\<close>
  "getMe userId s =
     (case user_findUnique_id userId s of
        (None, s1) \<Rightarrow> (ErrorResponse ''User not found'' 404, s1)
      | (Some u, s1) \<Rightarrow>
          (SuccessResponse
             (UserData (select_fields
                [''id'', ''email'', ''firstName'', ''lastName'', ''isActive'', ''createdAt'',
                 ''updatedAt''] (user_row u)))
             ''User profile retrieved'' None, s1))"

section \<open>The middleware (\<open>middleware/auth.js\<close>)\<close>

definition authenticate :: "lib \<Rightarrow> int \<Rightarrow> string option \<Rightarrow> response" where
  \<comment> \<open>the arguments are the clock reading of the verification and
      \<open>req.headers.authorization\<close>\<close>
  "authenticate L t authHeader =
     (if falsy authHeader then ErrorResponse ''Access token is required'' 401
      else case authHeader of
        Some h \<Rightarrow>
          if \<not> startsWith h ''Bearer ''
          then ErrorResponse ''Invalid token format. Use: Bearer <token>'' 401
          else
            let token = index_opt (split_on CHR '' '' h) 1 in
            if falsy token then ErrorResponse ''Access token is required'' 401
            else (case token of
                    Some tok \<Rightarrow>
                      (case verifyAccessToken (jwt_verify L) t tok of
                         Inr decoded \<Rightarrow> Next (Some (fst decoded, snd decoded))
                       | Inl TokenExpiredError \<Rightarrow> ErrorResponse ''Access token has expired'' 401
                       | Inl JsonWebTokenError \<Rightarrow> ErrorResponse ''Invalid access token'' 401
                       | Inl NotBeforeError \<Rightarrow> ErrorResponse ''Authentication failed'' 401)
                  | None \<Rightarrow> ErrorResponse ''Authentication failed'' 401)
      | None \<Rightarrow> ErrorResponse ''Authentication failed'' 401)"

section \<open>Requests served one after another\<close>

datatype request =
  Register body | Login body | Refresh body | Logout body | LogoutAll string | GetMe string

fun handle :: "lib \<Rightarrow> env \<Rightarrow> request \<Rightarrow> db \<Rightarrow> response \<times> db" where
  "handle L e (Register b) s = register L e b s"
| "handle L e (Login b) s = login L e b s"
| "handle L e (Refresh b) s = refreshToken L e b s"
| "handle L e (Logout b) s = logout b s"
| "handle L e (LogoutAll uid) s = logoutAll uid s"
| "handle L e (GetMe uid) s = getMe uid s"

fun serve :: "lib \<Rightarrow> (env \<times> request) list \<Rightarrow> db \<Rightarrow> db" where
  "serve L [] s = s"
| "serve L (er # rest) s = serve L rest (snd (handle L (fst er) (snd er) s))"

definition token_values :: "db \<Rightarrow> string list" where
  "token_values s = map rt_token (refreshTokens s)"

definition store_ok :: "db \<Rightarrow> bool" where
  \<comment> \<open>what the schema and \<open>uuidv4\<close> give: token values are unique and not empty\<close>
  "store_ok s = (distinct (token_values s) \<and> [] \<notin> set (token_values s))"

definition empty_db :: db where
  "empty_db = \<lparr>users = [], refreshTokens = [], calls = []\<rparr>"


text \<open>
  The shape the specification requires of the header: the prefix \<open>Bearer\<close>, one space,
  and a token that is not empty and has no space. It is written from the specification's
  words, to be compared with what \<^const>\<open>authenticate\<close> accepts.
\<close>

definition spec_bearer_shape :: "string \<Rightarrow> bool" where
  "spec_bearer_shape h =
     (startsWith h ''Bearer '' \<and> drop (length ''Bearer '') h \<noteq> []
      \<and> CHR '' '' \<notin> set (drop (length ''Bearer '') h))"

section \<open>Concrete requests\<close>

text \<open>
  An instance of the libraries and of the environment, a database with one account and
  one refresh token, and request bodies, for running the handlers on concrete requests.
\<close>

definition test_lib :: lib where
  "test_lib =
     \<lparr>bcrypt_hash = (\<lambda>pw salt. case pw of VStr p \<Rightarrow> Inr (salt @ p) | _ \<Rightarrow> Inl IllegalArguments),
      bcrypt_compare = (\<lambda>pw h. case pw of VStr p \<Rightarrow> Inr (drop 2 h = p)
                                | _ \<Rightarrow> Inl IllegalArguments),
      jwt_sign = (\<lambda>i em t. i @ '':'' @ em),
      jwt_verify = (\<lambda>tok t. if tok = ''expired'' then Inl TokenExpiredError
                             else if tok = ''good'' then Inr (''u1'', ''user@x.com'')
                             else Inl JsonWebTokenError),
      refreshExpiresIn = ''7d'', isActiveDefault = True\<rparr>"

definition test_env :: "nat \<Rightarrow> string \<Rightarrow> env" where
  "test_env t k =
     \<lparr>newDate = int t, dateNow = t, uuidv4 = ''t'' @ k, genSalt = ''s$'', dbUserId = ''u'' @ k,
      dbTokenId = ''r'' @ k, dbNow = int t\<rparr>"

definition test_db :: db where
  "test_db =
     \<lparr>users = [\<lparr>u_id = ''u1'', u_email = ''user@x.com'', u_password = ''s$12345678'',
                 u_firstName = None, u_lastName = None, u_isActive = True,
                 u_createdAt = 1, u_updatedAt = 1\<rparr>],
      refreshTokens = [\<lparr>rt_id = ''r1'', rt_token = ''t1'', rt_userId = ''u1'',
                         rt_expiresAt = 1000, rt_createdAt = 1\<rparr>],
      calls = []\<rparr>"

definition test_db2 :: db where
  "test_db2 =
     \<lparr>users = users test_db,
      refreshTokens = refreshTokens test_db @
        [\<lparr>rt_id = ''r2'', rt_token = ''ty'', rt_userId = ''u1'', rt_expiresAt = 1000,
           rt_createdAt = 2\<rparr>],
      calls = []\<rparr>"

definition credentials :: "string \<Rightarrow> string \<Rightarrow> body" where
  "credentials em pw =
     \<lparr>b_email = VStr em, b_password = VStr pw, b_firstName = VUndefined,
      b_lastName = VUndefined, b_refreshToken = VUndefined\<rparr>"

definition token_body :: "string \<Rightarrow> body" where
  "token_body tok =
     \<lparr>b_email = VUndefined, b_password = VUndefined, b_firstName = VUndefined,
      b_lastName = VUndefined, b_refreshToken = VStr tok\<rparr>"

section \<open>Durations\<close>

lemma duration_match_iff:
  "duration_match d = Some (ds, u) \<longleftrightarrow>
     d = ds @ [u] \<and> ds \<noteq> [] \<and> list_all is_digit ds \<and> u \<in> set ''smhd''"
proof
  assume "duration_match d = Some (ds, u)"
  then have d: "d \<noteq> []" and ds: "ds = butlast d" and u: "u = last d"
    and rest: "butlast d \<noteq> []" "list_all is_digit (butlast d)" "last d \<in> set ''smhd''"
    by (auto simp: duration_match_def split: if_splits)
  from d have "d = butlast d @ [last d]" by simp
  with ds u rest show "d = ds @ [u] \<and> ds \<noteq> [] \<and> list_all is_digit ds \<and> u \<in> set ''smhd''"
    by simp
next
  assume "d = ds @ [u] \<and> ds \<noteq> [] \<and> list_all is_digit ds \<and> u \<in> set ''smhd''"
  then show "duration_match d = Some (ds, u)"
    by (simp add: duration_match_def)
qed







text \<open>
  Beyond the exact range the program gets a double of at least \<open>2^53\<close> milliseconds,
  and the date made of it is invalid.
\<close>

lemma parseDuration_big:
  assumes "d = ds @ [u] \<and> ds \<noteq> [] \<and> list_all is_digit ds \<and> u \<in> set ''smhd''"
    and "9007199254740992 \<le> digits_value ds * units u"
  shows "parseDuration d = Big \<and> getRefreshTokenExpiry d t = None"
proof -
  have m: "duration_match d = Some (ds, u)"
    using assms(1) duration_match_iff [of d ds u] by blast
  with assms(2) have "parseDuration d = Big"
    by (simp add: parseDuration_def parseInt10_def js_times_def)
  then show ?thesis
    by (simp add: getRefreshTokenExpiry_def js_plus_def new_Date_def)
qed




section \<open>Lookups in a table\<close>

lemma find_None_conv: "find P xs = None \<longleftrightarrow> \<not> (\<exists>x \<in> set xs. P x)"
  by (induction xs) auto

lemma find_Some_set: "find P xs = Some x \<Longrightarrow> x \<in> set xs \<and> P x"
  by (induction xs) (auto split: if_splits)

lemma find_distinct:
  "distinct (map f xs) \<Longrightarrow> x \<in> set xs \<Longrightarrow> find (\<lambda>y. f y = f x) xs = Some x"
  by (induction xs) (auto simp: image_iff)

lemmas test_defs = test_lib_def test_env_def test_db_def credentials_def token_body_def empty_db_def

lemmas lower_defs = toLowerCase_def lower_char_def upper_letters_def lower_letters_def

lemmas client_defs = user_findUnique_email_def user_findUnique_id_def user_create_def
  refreshToken_create_def refreshToken_findUnique_def refreshToken_delete_def
  refreshToken_deleteMany_def transaction_def logged_def

text \<open>
  Lower-casing and white space beyond ASCII: a capital E with an acute accent becomes the
  small one, the multiplication sign and the sharp s stay, and a no-break space in the
  local part makes the pattern of the email fail.
\<close>

lemma beyond_ascii:
  "toLowerCase [CHR 0xC9, CHR ''@'', CHR ''X''] = [CHR 0xE9, CHR ''@'', CHR ''x'']"
  "toLowerCase [CHR 0xD7, CHR 0xDF, CHR 0xFF] = [CHR 0xD7, CHR 0xDF, CHR 0xFF]"
  "\<not> emailRegex_test (''a'' @ [CHR 0xA0] @ ''b@x.com'')"
  by (simp_all add: lower_defs emailRegex_test_def nsa_def is_space_def)

section \<open>Registration\<close>

text \<open>
  The pattern of the controller, read as a language: a local part, \<open>@\<close>, and a domain
  made of two parts around a dot, each part not empty and free of white space and \<open>@\<close>.
\<close>

lemma nsa_dot: "nsa CHR ''.''"
  by (simp add: nsa_def is_space_def)

lemma emailRegex_test_iff:
  "emailRegex_test s \<longleftrightarrow>
     (\<exists>a b c. s = a @ CHR ''@'' # b @ CHR ''.'' # c \<and> a \<noteq> [] \<and> b \<noteq> [] \<and> c \<noteq> []
        \<and> list_all nsa a \<and> list_all nsa b \<and> list_all nsa c)"
proof
  assume t: "emailRegex_test s"
  let ?a = "takeWhile (\<lambda>c. c \<noteq> CHR ''@'') s" and ?r = "dropWhile (\<lambda>c. c \<noteq> CHR ''@'') s"
  from t obtain x d where r: "?r = x # d" and a: "?a \<noteq> []" "list_all nsa ?a"
    and d: "list_all nsa d" and ex: "list_ex (\<lambda>i. d ! i = CHR ''.'') [1 ..< length d - 1]"
    by (auto simp: emailRegex_test_def Let_def split: list.splits)
  have "x = hd ?r" using r by simp
  also have "\<not> (hd ?r \<noteq> CHR ''@'')"
    using r hd_dropWhile [of "\<lambda>c. c \<noteq> CHR ''@''" s] by auto
  finally have x: "x = CHR ''@''" by simp
  from ex obtain i where i: "1 \<le> i" "i < length d - 1" "d ! i = CHR ''.''"
    by (auto simp: list_ex_iff)
  then have il: "i < length d" by simp
  have dd: "d = take i d @ CHR ''.'' # drop (Suc i) d"
    using id_take_nth_drop [OF il] i(3) by simp
  have s: "s = ?a @ CHR ''@'' # take i d @ CHR ''.'' # drop (Suc i) d"
    using takeWhile_dropWhile_id [of "\<lambda>c. c \<noteq> CHR ''@''" s] r x dd by metis
  have b: "take i d \<noteq> []" using i(1) il by auto
  have c: "drop (Suc i) d \<noteq> []" using i(2) by auto
  have nb: "list_all nsa (take i d)" and nc: "list_all nsa (drop (Suc i) d)"
    using d by (auto simp: list_all_iff dest: in_set_takeD in_set_dropD)
  show "\<exists>a b c. s = a @ CHR ''@'' # b @ CHR ''.'' # c \<and> a \<noteq> [] \<and> b \<noteq> [] \<and> c \<noteq> []
        \<and> list_all nsa a \<and> list_all nsa b \<and> list_all nsa c"
    using s a b c nb nc by blast
next
  assume "\<exists>a b c. s = a @ CHR ''@'' # b @ CHR ''.'' # c \<and> a \<noteq> [] \<and> b \<noteq> [] \<and> c \<noteq> []
        \<and> list_all nsa a \<and> list_all nsa b \<and> list_all nsa c"
  then obtain a b c where s: "s = a @ CHR ''@'' # b @ CHR ''.'' # c"
    and ne: "a \<noteq> []" "b \<noteq> []" "c \<noteq> []"
    and n: "list_all nsa a" "list_all nsa b" "list_all nsa c"
    by blast
  have pa: "\<forall>x \<in> set a. x \<noteq> CHR ''@''"
    using n(1) by (auto simp: list_all_iff nsa_def)
  have tw: "takeWhile (\<lambda>c. c \<noteq> CHR ''@'') s = a"
    unfolding s using pa by (simp add: takeWhile_tail)
  have dw: "dropWhile (\<lambda>c. c \<noteq> CHR ''@'') s = CHR ''@'' # b @ CHR ''.'' # c"
    unfolding s using pa by (simp add: dropWhile_append3)
  have nd: "list_all nsa (b @ CHR ''.'' # c)"
    using n(2,3) nsa_dot by simp
  have "1 \<le> length b \<and> length b < length (b @ CHR ''.'' # c) - 1"
    using ne(2,3) by (cases b) simp_all
  then have "length b \<in> set [1 ..< length (b @ CHR ''.'' # c) - 1]"
    by (simp only: set_upt atLeastLessThan_iff)
  moreover have "(b @ CHR ''.'' # c) ! length b = CHR ''.''"
    by simp
  ultimately have ex: "list_ex (\<lambda>i. (b @ CHR ''.'' # c) ! i = CHR ''.'') [1 ..< length (b @ CHR ''.'' # c) - 1]"
    unfolding list_ex_iff by blast
  show "emailRegex_test s"
    unfolding emailRegex_test_def Let_def tw dw
    using ne(1) n(1) nd ex by simp
qed





text \<open>
  C6: a registration that passes the validation of the input (an email matching the
  pattern, a password of at least 8 characters) and whose email, in lower case, is the
  email of an existing account is answered with status 409 and the message that the user
  already exists; the tables are unchanged. The lookup is by the email in lower case, and
  a registration that succeeds adds one account whose email is the input in lower case.
\<close>

theorem register_duplicate_email:
  assumes "b_email b = VStr email" "emailRegex_test email"
    and "b_password b = VStr password" "8 \<le> length password"
  shows "((\<exists>u \<in> set (users s). u_email u = toLowerCase email) \<longrightarrow>
            register L e b s
              = (ErrorResponse ''User with this email already exists'' 409,
                 logged User_findUnique s))
       \<and> (\<forall>d m c s'. register L e b s = (SuccessResponse d m c, s') \<longrightarrow>
            (\<exists>u. users s' = users s @ [u] \<and> u_email u = toLowerCase email)
            \<and> \<not> (\<exists>u \<in> set (users s). u_email u = toLowerCase email))"
proof -
  have ne: "email \<noteq> []" using assms(2) by (auto simp: emailRegex_test_def)
  have np: "password \<noteq> []" using assms(4) by auto
  have pre: "\<not> falsy_value (b_email b)" "\<not> falsy_value (b_password b)"
    "emailRegex_test_value (b_email b)" "\<not> length_less (b_password b) 8"
    using assms ne np
    by (simp_all add: falsy_value_def emailRegex_test_value_def length_less_def)
  show ?thesis
  proof (cases "find (\<lambda>u. u_email u = toLowerCase email) (users s)")
    case None
    then have no: "\<not> (\<exists>u \<in> set (users s). u_email u = toLowerCase email)"
      by (simp add: find_None_conv)
    show ?thesis
      using pre assms(1) None no
      by (auto simp: register_def user_findUnique_email_def user_create_def
          refreshToken_create_def logged_def Let_def
          split: if_splits sum.splits option.splits prod.splits)
  next
    case (Some u)
    then have "u \<in> set (users s) \<and> u_email u = toLowerCase email"
      by (rule find_Some_set)
    then show ?thesis
      using pre assms(1) Some
      by (auto simp: register_def user_findUnique_email_def)
  qed
qed

lemma register_first:
  "snd (register test_lib (test_env 1 ''x'') (credentials ''user@x.com'' ''12345678'') empty_db)
     = \<lparr>users = [\<lparr>u_id = ''ux'', u_email = ''user@x.com'', u_password = ''s$12345678'',
                  u_firstName = None, u_lastName = None, u_isActive = True,
                  u_createdAt = 1, u_updatedAt = 1\<rparr>],
        refreshTokens = [\<lparr>rt_id = ''rx'', rt_token = ''tx'', rt_userId = ''ux'',
                          rt_expiresAt = 604800001, rt_createdAt = 1\<rparr>],
        calls = [User_findUnique, User_create, RefreshToken_create]\<rparr>"
  by (simp add: register_def test_defs falsy_value_def emailRegex_test_value_def
      emailRegex_test_def nsa_def is_space_def length_less_def lower_defs client_defs nullable_string_def Let_def
      or_null_def getRefreshTokenExpiry_def new_Date_def js_plus_def js_times_def
      parseDuration_def duration_match_def is_digit_def parseInt10_def digits_value_def
      units_def)

theorem register_duplicate_email_witness:
  "register test_lib (test_env 2 ''y'') (credentials ''USER@x.com'' ''abcdefgh'')
      (snd (register test_lib (test_env 1 ''x'') (credentials ''user@x.com'' ''12345678'') empty_db))
    = (ErrorResponse ''User with this email already exists'' 409,
       logged User_findUnique
         (snd (register test_lib (test_env 1 ''x'') (credentials ''user@x.com'' ''12345678'')
                 empty_db)))"
proof -
  have v: "emailRegex_test ''USER@x.com''"
    by (simp add: emailRegex_test_def nsa_def is_space_def)
  show ?thesis
    using register_duplicate_email [of "credentials ''USER@x.com'' ''abcdefgh''"
        "''USER@x.com''" "''abcdefgh''"
        "snd (register test_lib (test_env 1 ''x'') (credentials ''user@x.com'' ''12345678'') empty_db)"
        test_lib "test_env 2 ''y''", THEN conjunct1] v
    unfolding register_first
    by (simp add: credentials_def lower_defs)
qed

section \<open>Login\<close>



section \<open>What a successful answer carries\<close>

lemma select_six:
  "select_fields [''id'', ''email'', ''firstName'', ''lastName'', ''isActive'', ''createdAt'']
     (user_row u)
   = [(''id'', JStr (u_id u)), (''email'', JStr (u_email u)),
      (''firstName'', opt_str (u_firstName u)), (''lastName'', opt_str (u_lastName u)),
      (''isActive'', JBool (u_isActive u)), (''createdAt'', JDate (u_createdAt u))]"
  by (simp add: select_fields_def user_row_def)

lemma select_seven:
  "select_fields [''id'', ''email'', ''firstName'', ''lastName'', ''isActive'', ''createdAt'',
     ''updatedAt''] (user_row u)
   = [(''id'', JStr (u_id u)), (''email'', JStr (u_email u)),
      (''firstName'', opt_str (u_firstName u)), (''lastName'', opt_str (u_lastName u)),
      (''isActive'', JBool (u_isActive u)), (''createdAt'', JDate (u_createdAt u)),
      (''updatedAt'', JDate (u_updatedAt u))]"
  by (simp add: select_fields_def user_row_def)

lemma register_success_shape:
  assumes "register L e b s = (SuccessResponse d m c, s')"
  shows "\<exists>u. users s' = users s @ [u]
       \<and> d = AuthData
              [(''id'', JStr (u_id u)), (''email'', JStr (u_email u)),
               (''firstName'', opt_str (u_firstName u)), (''lastName'', opt_str (u_lastName u)),
               (''isActive'', JBool (u_isActive u)), (''createdAt'', JDate (u_createdAt u))]
              (jwt_sign L (u_id u) (u_email u) (int (dateNow e))) (uuidv4 e)"
  using assms
  by (auto simp: register_def select_six Let_def client_defs generateAccessToken_def
      split: if_splits option.splits prod.splits sum.splits jsvalue.splits)

lemma login_success_shape:
  assumes "login L e b s = (SuccessResponse d m c, s')"
  shows "\<exists>u. u \<in> set (users s)
       \<and> d = AuthData
              [(''id'', JStr (u_id u)), (''email'', JStr (u_email u)),
               (''firstName'', opt_str (u_firstName u)), (''lastName'', opt_str (u_lastName u)),
               (''isActive'', JBool (u_isActive u)), (''createdAt'', JDate (u_createdAt u))]
              (jwt_sign L (u_id u) (u_email u) (int (dateNow e))) (uuidv4 e)"
  using assms
  by (auto simp: login_def Let_def user_findUnique_email_def generateAccessToken_def
      dest!: find_Some_set
      split: if_splits option.splits prod.splits sum.splits jsvalue.splits)

lemma getMe_success_shape:
  assumes "getMe uid s = (SuccessResponse d m c, s')"
  shows "\<exists>u. u \<in> set (users s) \<and> u_id u = uid
       \<and> d = UserData
              [(''id'', JStr (u_id u)), (''email'', JStr (u_email u)),
               (''firstName'', opt_str (u_firstName u)), (''lastName'', opt_str (u_lastName u)),
               (''isActive'', JBool (u_isActive u)), (''createdAt'', JDate (u_createdAt u)),
               (''updatedAt'', JDate (u_updatedAt u))]"
  using assms
  by (auto simp: getMe_def select_seven Let_def user_findUnique_id_def
      dest!: find_Some_set
      split: if_splits option.splits prod.splits sum.splits)

text \<open>
  C9: a successful answer of \<open>register\<close> or \<open>login\<close> carries an account object, an
  access token and a refresh token, and one of \<open>getMe\<close> carries an account object.
  The account object has the fields \<open>id\<close>, \<open>email\<close>, \<open>firstName\<close>, \<open>lastName\<close>,
  \<open>isActive\<close>, \<open>createdAt\<close> (and \<open>updatedAt\<close> for \<open>getMe\<close>), each holding the
  column of that name of the account; the access token is signed over the \<open>id\<close> and
  the \<open>email\<close> of the account; the refresh token is the value \<open>uuidv4\<close> returned.
  The column \<open>password\<close>, which holds the hash, is no part of any of them.
\<close>

theorem no_password_in_output:
  "(\<forall>d m c s'. register L e b s = (SuccessResponse d m c, s') \<longrightarrow>
      (\<exists>u. users s' = users s @ [u]
         \<and> d = AuthData
                [(''id'', JStr (u_id u)), (''email'', JStr (u_email u)),
                 (''firstName'', opt_str (u_firstName u)),
                 (''lastName'', opt_str (u_lastName u)),
                 (''isActive'', JBool (u_isActive u)), (''createdAt'', JDate (u_createdAt u))]
                (jwt_sign L (u_id u) (u_email u) (int (dateNow e))) (uuidv4 e)))
   \<and> (\<forall>d m c s'. login L e b s = (SuccessResponse d m c, s') \<longrightarrow>
      (\<exists>u \<in> set (users s).
         d = AuthData
               [(''id'', JStr (u_id u)), (''email'', JStr (u_email u)),
                (''firstName'', opt_str (u_firstName u)),
                (''lastName'', opt_str (u_lastName u)),
                (''isActive'', JBool (u_isActive u)), (''createdAt'', JDate (u_createdAt u))]
               (jwt_sign L (u_id u) (u_email u) (int (dateNow e))) (uuidv4 e)))
   \<and> (\<forall>d m c s'. getMe uid s = (SuccessResponse d m c, s') \<longrightarrow>
      (\<exists>u \<in> set (users s). u_id u = uid
         \<and> d = UserData
                [(''id'', JStr (u_id u)), (''email'', JStr (u_email u)),
                 (''firstName'', opt_str (u_firstName u)),
                 (''lastName'', opt_str (u_lastName u)),
                 (''isActive'', JBool (u_isActive u)), (''createdAt'', JDate (u_createdAt u)),
                 (''updatedAt'', JDate (u_updatedAt u))]))"
proof (intro conjI allI impI)
  fix d m c s'
  assume "register L e b s = (SuccessResponse d m c, s')"
  from register_success_shape [OF this]
  show "\<exists>u. users s' = users s @ [u]
         \<and> d = AuthData
                [(''id'', JStr (u_id u)), (''email'', JStr (u_email u)),
                 (''firstName'', opt_str (u_firstName u)),
                 (''lastName'', opt_str (u_lastName u)),
                 (''isActive'', JBool (u_isActive u)), (''createdAt'', JDate (u_createdAt u))]
                (jwt_sign L (u_id u) (u_email u) (int (dateNow e))) (uuidv4 e)" .
next
  fix d m c s'
  assume "login L e b s = (SuccessResponse d m c, s')"
  from login_success_shape [OF this]
  show "\<exists>u \<in> set (users s).
         d = AuthData
               [(''id'', JStr (u_id u)), (''email'', JStr (u_email u)),
                (''firstName'', opt_str (u_firstName u)),
                (''lastName'', opt_str (u_lastName u)),
                (''isActive'', JBool (u_isActive u)), (''createdAt'', JDate (u_createdAt u))]
               (jwt_sign L (u_id u) (u_email u) (int (dateNow e))) (uuidv4 e)"
    by blast
next
  fix d m c s'
  assume "getMe uid s = (SuccessResponse d m c, s')"
  from getMe_success_shape [OF this]
  show "\<exists>u \<in> set (users s). u_id u = uid
         \<and> d = UserData
                [(''id'', JStr (u_id u)), (''email'', JStr (u_email u)),
                 (''firstName'', opt_str (u_firstName u)),
                 (''lastName'', opt_str (u_lastName u)),
                 (''isActive'', JBool (u_isActive u)), (''createdAt'', JDate (u_createdAt u)),
                 (''updatedAt'', JDate (u_updatedAt u))]"
    by blast
qed

section \<open>The bearer header\<close>

lemma split_on_not_Nil: "split_on c x \<noteq> []"
  by (induction x) (auto split: list.splits)

lemma hd_split_on: "hd (split_on c x) = takeWhile (\<lambda>a. a \<noteq> c) x"
  by (induction x) (auto split: list.splits simp: split_on_not_Nil)

lemma startsWith_iff: "startsWith h p \<longleftrightarrow> (\<exists>x. h = p @ x)"
proof
  assume "startsWith h p"
  then have "h = p @ drop (length p) h"
    using append_take_drop_id [of "length p" h] by (simp add: startsWith_def)
  then show "\<exists>x. h = p @ x" ..
next
  assume "\<exists>x. h = p @ x"
  then show "startsWith h p" by (auto simp: startsWith_def)
qed

lemma split_Bearer: "split_on CHR '' '' (''Bearer '' @ x) = ''Bearer'' # split_on CHR '' '' x"
  by simp

lemma second_segment:
  "index_opt (split_on CHR '' '' (''Bearer '' @ x)) 1 = Some (takeWhile (\<lambda>a. a \<noteq> CHR '' '') x)"
proof -
  obtain w ws where w: "split_on CHR '' '' x = w # ws"
    using split_on_not_Nil [of "CHR '' ''" x] by (cases "split_on CHR '' '' x") auto
  then have "w = takeWhile (\<lambda>a. a \<noteq> CHR '' '') x"
    using hd_split_on [of "CHR '' ''" x] by simp
  with w show ?thesis
    unfolding split_Bearer by (simp add: index_opt_def)
qed

lemma authenticate_Bearer:
  "authenticate L t (Some (''Bearer '' @ x)) =
     (let tok = takeWhile (\<lambda>a. a \<noteq> CHR '' '') x in
      if tok = [] then ErrorResponse ''Access token is required'' 401
      else (case jwt_verify L tok t of
              Inr decoded \<Rightarrow> Next (Some (fst decoded, snd decoded))
            | Inl TokenExpiredError \<Rightarrow> ErrorResponse ''Access token has expired'' 401
            | Inl JsonWebTokenError \<Rightarrow> ErrorResponse ''Invalid access token'' 401
            | Inl NotBeforeError \<Rightarrow> ErrorResponse ''Authentication failed'' 401))"
proof -
  have s: "startsWith (''Bearer '' @ x) ''Bearer ''"
    unfolding startsWith_iff by blast
  have f: "\<not> falsy (Some (''Bearer '' @ x))"
    by (simp add: falsy_def)
  show ?thesis
    using s f second_segment [of x]
    by (simp add: authenticate_def falsy_def verifyAccessToken_def Let_def)
qed

text \<open>
  C4, as stated: a header that is not of the shape \<open>Bearer <token>\<close> is answered as
  malformed. The header that is the prefix alone, with an empty token, is not of that
  shape, and it gets the answer of an absent header.
\<close>

theorem authenticate_empty_token_counterexample:
  "\<not> spec_bearer_shape ''Bearer ''
   \<and> authenticate test_lib 0 (Some ''Bearer '')
       \<noteq> ErrorResponse ''Invalid token format. Use: Bearer <token>'' 401
   \<and> authenticate test_lib 0 (Some ''Bearer '') = authenticate test_lib 0 None"
  by (simp add: spec_bearer_shape_def startsWith_def authenticate_def falsy_def index_opt_def)

text \<open>
  C4, amended: an absent or empty header is answered with \<open>Access token is required\<close>;
  a header that is not empty and does not start with \<open>Bearer\<close> and a space is answered
  with \<open>Invalid token format\<close>; a header that starts so is read up to the next space,
  and the text read is the token (what follows a further space is ignored): an empty
  token is answered like an absent header, a token that the verification reports as
  expired with \<open>Access token has expired\<close>, one it reports as invalid with
  \<open>Invalid access token\<close>, and a verified token gives the identity made of the \<open>id\<close>
  and \<open>email\<close> it decodes to. The function takes no database and returns none.
\<close>

theorem authenticate_cases:
  "authenticate L t None = ErrorResponse ''Access token is required'' 401
   \<and> authenticate L t (Some []) = ErrorResponse ''Access token is required'' 401
   \<and> (h \<noteq> [] \<and> \<not> startsWith h ''Bearer '' \<longrightarrow>
        authenticate L t (Some h) = ErrorResponse ''Invalid token format. Use: Bearer <token>'' 401)
   \<and> (takeWhile (\<lambda>a. a \<noteq> CHR '' '') x = [] \<longrightarrow>
        authenticate L t (Some (''Bearer '' @ x)) = ErrorResponse ''Access token is required'' 401)
   \<and> (takeWhile (\<lambda>a. a \<noteq> CHR '' '') x \<noteq> [] \<longrightarrow>
        (jwt_verify L (takeWhile (\<lambda>a. a \<noteq> CHR '' '') x) t = Inl TokenExpiredError \<longrightarrow>
           authenticate L t (Some (''Bearer '' @ x)) = ErrorResponse ''Access token has expired'' 401)
        \<and> (jwt_verify L (takeWhile (\<lambda>a. a \<noteq> CHR '' '') x) t = Inl JsonWebTokenError \<longrightarrow>
           authenticate L t (Some (''Bearer '' @ x)) = ErrorResponse ''Invalid access token'' 401)
        \<and> (\<forall>ownerId email.
             jwt_verify L (takeWhile (\<lambda>a. a \<noteq> CHR '' '') x) t = Inr (ownerId, email) \<longrightarrow>
             authenticate L t (Some (''Bearer '' @ x)) = Next (Some (ownerId, email))))"
proof (intro conjI impI allI)
  show "authenticate L t None = ErrorResponse ''Access token is required'' 401"
    by (simp add: authenticate_def falsy_def)
  show "authenticate L t (Some []) = ErrorResponse ''Access token is required'' 401"
    by (simp add: authenticate_def falsy_def)
next
  assume "h \<noteq> [] \<and> \<not> startsWith h ''Bearer ''"
  then show "authenticate L t (Some h) = ErrorResponse ''Invalid token format. Use: Bearer <token>'' 401"
    by (simp add: authenticate_def falsy_def)
next
  assume "takeWhile (\<lambda>a. a \<noteq> CHR '' '') x = []"
  then show "authenticate L t (Some (''Bearer '' @ x)) = ErrorResponse ''Access token is required'' 401"
    unfolding authenticate_Bearer by (simp add: Let_def)
next
  assume "takeWhile (\<lambda>a. a \<noteq> CHR '' '') x \<noteq> []"
    and "jwt_verify L (takeWhile (\<lambda>a. a \<noteq> CHR '' '') x) t = Inl TokenExpiredError"
  then show "authenticate L t (Some (''Bearer '' @ x)) = ErrorResponse ''Access token has expired'' 401"
    unfolding authenticate_Bearer by (simp add: Let_def)
next
  assume "takeWhile (\<lambda>a. a \<noteq> CHR '' '') x \<noteq> []"
    and "jwt_verify L (takeWhile (\<lambda>a. a \<noteq> CHR '' '') x) t = Inl JsonWebTokenError"
  then show "authenticate L t (Some (''Bearer '' @ x)) = ErrorResponse ''Invalid access token'' 401"
    unfolding authenticate_Bearer by (simp add: Let_def)
next
  fix ownerId email
  assume "takeWhile (\<lambda>a. a \<noteq> CHR '' '') x \<noteq> []"
    and "jwt_verify L (takeWhile (\<lambda>a. a \<noteq> CHR '' '') x) t = Inr (ownerId, email)"
  then show "authenticate L t (Some (''Bearer '' @ x)) = Next (Some (ownerId, email))"
    unfolding authenticate_Bearer by (simp add: Let_def)
qed

theorem authenticate_cases_witness:
  "authenticate test_lib 0 (Some ''bearer good'')
     = ErrorResponse ''Invalid token format. Use: Bearer <token>'' 401
   \<and> authenticate test_lib 0 (Some (''Bearer '' @ '' good''))
     = ErrorResponse ''Access token is required'' 401
   \<and> authenticate test_lib 0 (Some (''Bearer '' @ ''expired''))
     = ErrorResponse ''Access token has expired'' 401
   \<and> authenticate test_lib 0 (Some (''Bearer '' @ ''good extra''))
     = Next (Some (''u1'', ''user@x.com''))"
  using authenticate_cases [of test_lib 0 "''bearer good''" "'' good''"]
    authenticate_cases [of test_lib 0 "''bearer good''" "''expired''"]
    authenticate_cases [of test_lib 0 "''bearer good''" "''good extra''"]
  by (simp add: startsWith_def test_lib_def)

section \<open>Token values in the table\<close>

lemma refresh_absent:
  assumes "b_refreshToken b = VStr T" "T \<noteq> []" "T \<notin> set (token_values s)"
  shows "refreshToken L e b s = (ErrorResponse ''Invalid refresh token'' 401, logged RefreshToken_findUnique s)"
proof -
  have "find (\<lambda>r. rt_token r = T) (refreshTokens s) = None"
    using assms(3) by (auto simp: find_None_conv token_values_def)
  then show ?thesis
    using assms(1,2) by (simp add: refreshToken_def falsy_value_def refreshToken_findUnique_def)
qed

lemma token_values_logged [simp]: "token_values (logged c s) = token_values s"
  by (simp add: token_values_def logged_def)

lemma register_token_values:
  "set (token_values (snd (register L e b s))) \<subseteq> insert (uuidv4 e) (set (token_values s))"
  by (auto simp: register_def Let_def client_defs token_values_def
      split: option.splits prod.splits sum.splits if_splits jsvalue.splits)

lemma login_token_values:
  "set (token_values (snd (login L e b s))) \<subseteq> insert (uuidv4 e) (set (token_values s))"
  by (auto simp: login_def Let_def client_defs token_values_def
      split: option.splits prod.splits sum.splits if_splits jsvalue.splits)

lemma refreshToken_token_values:
  "set (token_values (snd (refreshToken L e b s))) \<subseteq> insert (uuidv4 e) (set (token_values s))"
  by (auto simp: refreshToken_def Let_def client_defs token_values_def
      split: option.splits prod.splits sum.splits if_splits jsvalue.splits)

lemma logout_token_values:
  "set (token_values (snd (logout b s))) \<subseteq> set (token_values s)"
  by (auto simp: logout_def Let_def client_defs token_values_def
      split: option.splits prod.splits sum.splits if_splits jsvalue.splits)

lemma logoutAll_token_values:
  "set (token_values (snd (logoutAll uid s))) \<subseteq> set (token_values s)"
  by (auto simp: logoutAll_def Let_def client_defs token_values_def
      split: option.splits prod.splits sum.splits if_splits jsvalue.splits)

lemma getMe_token_values:
  "token_values (snd (getMe uid s)) = token_values s"
  by (auto simp: getMe_def Let_def client_defs token_values_def
      split: option.splits prod.splits sum.splits if_splits jsvalue.splits)

lemma handle_token_values:
  "set (token_values (snd (handle L e r s))) \<subseteq> insert (uuidv4 e) (set (token_values s))"
proof (cases r)
  case (Register b)
  then show ?thesis using register_token_values [of L e b s] by simp
next
  case (Login b)
  then show ?thesis using login_token_values [of L e b s] by simp
next
  case (Refresh b)
  then show ?thesis using refreshToken_token_values [of L e b s] by simp
next
  case (Logout b)
  then show ?thesis using logout_token_values [of b s] by auto
next
  case (LogoutAll uid)
  then show ?thesis using logoutAll_token_values [of uid s] by auto
next
  case (GetMe uid)
  then show ?thesis using getMe_token_values [of uid s] by auto
qed

lemma serve_absent:
  "T \<notin> set (token_values s) \<Longrightarrow> \<forall>er \<in> set reqs. uuidv4 (fst er) \<noteq> T \<Longrightarrow>
     T \<notin> set (token_values (serve L reqs s))"
proof (induction reqs arbitrary: s)
  case Nil
  then show ?case by simp
next
  case (Cons er reqs)
  have "T \<notin> set (token_values (snd (handle L (fst er) (snd er) s)))"
    using handle_token_values [of L "fst er" "snd er" s] Cons.prems by auto
  then show ?case
    using Cons.IH Cons.prems(2) by simp
qed

lemma distinct_token_id:
  assumes "distinct (token_values s)" "r \<in> set (refreshTokens s)"
  shows "rt_token r \<notin> rt_token ` set (filter (\<lambda>x. rt_id x \<noteq> rt_id r) (refreshTokens s))"
proof
  assume "rt_token r \<in> rt_token ` set (filter (\<lambda>x. rt_id x \<noteq> rt_id r) (refreshTokens s))"
  then obtain x where x: "x \<in> set (refreshTokens s)" "rt_id x \<noteq> rt_id r" "rt_token x = rt_token r"
    by auto
  from assms(1) have "inj_on rt_token (set (refreshTokens s))"
    by (simp add: token_values_def distinct_map)
  with x(1,3) assms(2) have "x = r" by (auto dest: inj_onD)
  with x(2) show False by simp
qed

section \<open>Logout\<close>

text \<open>
  C8, as stated: \<open>logout\<close> returns success whatever it is given. A request whose token
  is the empty string is answered with status 400 instead, and nothing is deleted.
\<close>

theorem logout_empty_token_counterexample:
  "logout (token_body []) test_db
     = (ErrorResponse ''Refresh token is required'' 400, test_db)
   \<and> fst (logout (token_body []) test_db)
       \<noteq> SuccessResponse NoData ''Logged out successfully'' None"
  by (simp add: logout_def falsy_value_def token_body_def)

text \<open>
  C8, amended: for every token value \<open>T\<close> that is a string and not the empty one,
  \<open>logout\<close> returns success, whether or not a row has the value \<open>T\<close>; it removes
  every row with that value and leaves the accounts as they are; a second \<open>logout\<close>
  with \<open>T\<close> succeeds too; a refresh with \<open>T\<close> afterwards is answered with
  \<open>Invalid refresh token\<close>, status 401, also after any further requests that do not
  issue \<open>T\<close> again. When the token is absent, \<open>null\<close>, the empty string, zero or
  \<open>false\<close>, \<open>logout\<close> answers with status 400 and the message
  \<open>Refresh token is required\<close>, and the database is the one it was given: no row is
  deleted and no query runs.
\<close>

theorem logout_cases:
  "(falsy_value (b_refreshToken b) \<longrightarrow>
      logout b s = (ErrorResponse ''Refresh token is required'' 400, s))
   \<and> (b_refreshToken b = VStr T \<and> T \<noteq> [] \<longrightarrow>
      fst (logout b s) = SuccessResponse NoData ''Logged out successfully'' None
      \<and> refreshTokens (snd (logout b s)) = filter (\<lambda>r. rt_token r \<noteq> T) (refreshTokens s)
      \<and> users (snd (logout b s)) = users s
      \<and> fst (logout b (snd (logout b s)))
          = SuccessResponse NoData ''Logged out successfully'' None
      \<and> (\<forall>L e. fst (refreshToken L e b (snd (logout b s)))
                 = ErrorResponse ''Invalid refresh token'' 401)
      \<and> (\<forall>L e reqs. (\<forall>er \<in> set reqs. uuidv4 (fst er) \<noteq> T) \<longrightarrow>
           fst (refreshToken L e b (serve L reqs (snd (logout b s))))
             = ErrorResponse ''Invalid refresh token'' 401))"
proof (rule conjI; rule impI)
  assume "falsy_value (b_refreshToken b)"
  then show "logout b s = (ErrorResponse ''Refresh token is required'' 400, s)"
    by (simp add: logout_def)
next
  assume a: "b_refreshToken b = VStr T \<and> T \<noteq> []"
  then have T: "b_refreshToken b = VStr T" and ne: "T \<noteq> []" by simp_all
  have l: "logout b s = (SuccessResponse NoData ''Logged out successfully'' None,
             (logged RefreshToken_deleteMany s)
               \<lparr>refreshTokens := filter (\<lambda>r. rt_token r \<noteq> T) (refreshTokens s)\<rparr>)" for s
    using a
    by (simp add: logout_def falsy_value_def refreshToken_deleteMany_def Let_def logged_def)
  have absent: "T \<notin> set (token_values (snd (logout b s)))"
    by (auto simp: l token_values_def)
  have "fst (refreshToken L e b (serve L reqs (snd (logout b s))))
              = ErrorResponse ''Invalid refresh token'' 401"
    if "\<forall>er \<in> set reqs. uuidv4 (fst er) \<noteq> T" for L e reqs
    using refresh_absent [OF T ne serve_absent [OF absent that]] by simp
  moreover have "fst (refreshToken L e b (snd (logout b s)))
                  = ErrorResponse ''Invalid refresh token'' 401" for L e
    using refresh_absent [OF T ne absent] by simp
  ultimately show "fst (logout b s) = SuccessResponse NoData ''Logged out successfully'' None
      \<and> refreshTokens (snd (logout b s)) = filter (\<lambda>r. rt_token r \<noteq> T) (refreshTokens s)
      \<and> users (snd (logout b s)) = users s
      \<and> fst (logout b (snd (logout b s)))
          = SuccessResponse NoData ''Logged out successfully'' None
      \<and> (\<forall>L e. fst (refreshToken L e b (snd (logout b s)))
                 = ErrorResponse ''Invalid refresh token'' 401)
      \<and> (\<forall>L e reqs. (\<forall>er \<in> set reqs. uuidv4 (fst er) \<noteq> T) \<longrightarrow>
           fst (refreshToken L e b (serve L reqs (snd (logout b s))))
             = ErrorResponse ''Invalid refresh token'' 401)"
    by (simp add: l logged_def)
qed

section \<open>Refresh\<close>

text \<open>
  C3: in a database where token values are unique and not empty, a refresh with the value
  of a stored row whose expiry is strictly before the clock reading is answered with
  \<open>Refresh token has expired\<close>, status 401, and the row is deleted; a later refresh
  with the same value is answered with \<open>Invalid refresh token\<close>, status 401, whatever
  the clock then reads.
\<close>

theorem refresh_expired:
  assumes "store_ok s" "r \<in> set (refreshTokens s)" "rt_expiresAt r < newDate e"
    and "b_refreshToken b = VStr (rt_token r)"
  shows "fst (refreshToken L e b s) = ErrorResponse ''Refresh token has expired'' 401
       \<and> refreshTokens (snd (refreshToken L e b s))
           = filter (\<lambda>x. rt_id x \<noteq> rt_id r) (refreshTokens s)
       \<and> r \<notin> set (refreshTokens (snd (refreshToken L e b s)))
       \<and> users (snd (refreshToken L e b s)) = users s
       \<and> (\<forall>L' e'. fst (refreshToken L' e' b (snd (refreshToken L e b s)))
                  = ErrorResponse ''Invalid refresh token'' 401)"
proof -
  let ?T = "rt_token r"
  have d: "distinct (token_values s)"
    using assms(1) by (simp add: store_ok_def)
  have "?T \<in> set (token_values s)"
    using assms(2) by (simp add: token_values_def)
  with assms(1) have ne: "?T \<noteq> []"
    unfolding store_ok_def by metis
  have f: "find (\<lambda>x. rt_token x = ?T) (refreshTokens s) = Some r"
    using d assms(2) find_distinct [of rt_token "refreshTokens s" r] by (simp add: token_values_def)
  have ex: "\<exists>x \<in> set (refreshTokens s). rt_id x = rt_id r"
    using assms(2) by blast
  have run: "refreshToken L e b s = (ErrorResponse ''Refresh token has expired'' 401,
      (logged RefreshToken_delete (logged RefreshToken_findUnique s))
        \<lparr>refreshTokens := filter (\<lambda>x. rt_id x \<noteq> rt_id r) (refreshTokens s)\<rparr>)"
    using assms(3,4) ne f ex
    by (simp add: refreshToken_def falsy_value_def refreshToken_findUnique_def refreshToken_delete_def
        Let_def logged_def)
  have absent: "?T \<notin> set (token_values (snd (refreshToken L e b s)))"
    using distinct_token_id [OF d assms(2)] by (simp add: run token_values_def logged_def)
  have "fst (refreshToken L' e' b (snd (refreshToken L e b s)))
                  = ErrorResponse ''Invalid refresh token'' 401" for L' e'
    using refresh_absent [OF assms(4) ne absent] by simp
  then show ?thesis
    by (simp add: run logged_def)
qed

lemma refresh_success_shape:
  assumes "refreshToken L e b s = (SuccessResponse d m c, s')"
  shows "\<exists>T old user new. b_refreshToken b = VStr T \<and> T \<noteq> []
      \<and> find (\<lambda>r. rt_token r = T) (refreshTokens s) = Some old
      \<and> find (\<lambda>u. u_id u = rt_userId old) (users s) = Some user
      \<and> \<not> newDate e > rt_expiresAt old \<and> u_isActive user
      \<and> d = TokenData (generateAccessToken (jwt_sign L) (int (dateNow e)) (u_id user, u_email user))
              (uuidv4 e)
      \<and> m = ''Token refreshed successfully'' \<and> c = None
      \<and> transaction (refreshToken_delete (rt_id old))
            (refreshToken_create e (uuidv4 e) (u_id user)
               (getRefreshTokenExpiry (refreshExpiresIn L) (dateNow e)))
            (logged RefreshToken_findUnique s)
          = (Inr ((), new), s')"
  using assms
  by (auto simp: refreshToken_def falsy_value_def refreshToken_findUnique_def Let_def
      split: option.splits if_splits prod.splits sum.splits jsvalue.splits)

lemma rotation_result:
  assumes "transaction (refreshToken_delete i) (refreshToken_create e tok uid expiry) s
             = (Inr (u, new), s')"
  shows "\<exists>ex. expiry = Some ex
       \<and> new = \<lparr>rt_id = dbTokenId e, rt_token = tok, rt_userId = uid, rt_expiresAt = ex,
                 rt_createdAt = dbNow e\<rparr>
       \<and> refreshTokens s' = filter (\<lambda>x. rt_id x \<noteq> i) (refreshTokens s) @ [new]
       \<and> users s' = users s
       \<and> calls s' = calls s @ [Transaction, RefreshToken_delete, RefreshToken_create]"
  using assms
  by (auto simp: transaction_def refreshToken_create_def refreshToken_delete_def logged_def Let_def
      split: if_splits prod.splits sum.splits option.splits)

lemma refresh_error_tables:
  assumes "refreshToken L e b s = (NextError x, s')"
  shows "refreshTokens s' = refreshTokens s \<and> users s' = users s"
  using assms
  by (auto simp: refreshToken_def falsy_value_def refreshToken_findUnique_def Let_def
      transaction_def refreshToken_create_def refreshToken_delete_def logged_def
      split: option.splits if_splits prod.splits sum.splits jsvalue.splits)

lemma rotation_removes_value:
  assumes "store_ok s" "refreshToken L e b s = (SuccessResponse d m c, s')"
  shows "\<exists>T old new a. b_refreshToken b = VStr T \<and> T \<noteq> [] \<and> old \<in> set (refreshTokens s)
            \<and> rt_token old = T \<and> d = TokenData a (uuidv4 e)
            \<and> refreshTokens s' = filter (\<lambda>x. rt_id x \<noteq> rt_id old) (refreshTokens s) @ [new]
            \<and> rt_token new = uuidv4 e \<and> rt_userId new = rt_userId old
            \<and> getRefreshTokenExpiry (refreshExpiresIn L) (dateNow e) = Some (rt_expiresAt new)
            \<and> users s' = users s
            \<and> (uuidv4 e \<noteq> T \<longrightarrow> old \<notin> set (refreshTokens s') \<and> T \<notin> set (token_values s'))"
proof -
  from refresh_success_shape [OF assms(2)]
  obtain T old user new where T: "b_refreshToken b = VStr T" "T \<noteq> []"
    and old: "find (\<lambda>r. rt_token r = T) (refreshTokens s) = Some old"
    and user: "find (\<lambda>u. u_id u = rt_userId old) (users s) = Some user"
    and d: "d = TokenData (generateAccessToken (jwt_sign L) (int (dateNow e)) (u_id user, u_email user))
                 (uuidv4 e)"
    and tr: "transaction (refreshToken_delete (rt_id old))
            (refreshToken_create e (uuidv4 e) (u_id user)
               (getRefreshTokenExpiry (refreshExpiresIn L) (dateNow e)))
            (logged RefreshToken_findUnique s)
          = (Inr ((), new), s')"
    by blast
  from rotation_result [OF tr]
  obtain ex where ex: "getRefreshTokenExpiry (refreshExpiresIn L) (dateNow e) = Some ex"
    and new: "new = \<lparr>rt_id = dbTokenId e, rt_token = uuidv4 e, rt_userId = u_id user,
                     rt_expiresAt = ex, rt_createdAt = dbNow e\<rparr>"
    and tabs: "refreshTokens s' = filter (\<lambda>x. rt_id x \<noteq> rt_id old) (refreshTokens s) @ [new]"
      "users s' = users s"
    by (auto simp: logged_def)
  have o: "old \<in> set (refreshTokens s)" "rt_token old = T"
    using find_Some_set [OF old] by auto
  have u: "u_id user = rt_userId old"
    using find_Some_set [OF user] by auto
  have nf: "rt_token new = uuidv4 e" "rt_userId new = rt_userId old" "rt_expiresAt new = ex"
    using new u by simp_all
  have dist: "distinct (token_values s)"
    using assms(1) by (simp add: store_ok_def)
  have gone: "T \<notin> rt_token ` set (filter (\<lambda>x. rt_id x \<noteq> rt_id old) (refreshTokens s))"
    using distinct_token_id [OF dist o(1)] o(2) by simp
  have fresh: "old \<notin> set (refreshTokens s') \<and> T \<notin> set (token_values s')" if "uuidv4 e \<noteq> T"
  proof
    show "old \<notin> set (refreshTokens s')"
      using that o(2) nf(1) by (auto simp: tabs(1))
    show "T \<notin> set (token_values s')"
      using that gone nf(1) by (auto simp: tabs(1) token_values_def)
  qed
  show ?thesis
  proof (rule exI [of _ T], rule exI [of _ old], rule exI [of _ new], rule exI)
    show "b_refreshToken b = VStr T \<and> T \<noteq> [] \<and> old \<in> set (refreshTokens s)
            \<and> rt_token old = T
            \<and> d = TokenData (generateAccessToken (jwt_sign L) (int (dateNow e)) (u_id user, u_email user))
                    (uuidv4 e)
            \<and> refreshTokens s' = filter (\<lambda>x. rt_id x \<noteq> rt_id old) (refreshTokens s) @ [new]
            \<and> rt_token new = uuidv4 e \<and> rt_userId new = rt_userId old
            \<and> getRefreshTokenExpiry (refreshExpiresIn L) (dateNow e) = Some (rt_expiresAt new)
            \<and> users s' = users s
            \<and> (uuidv4 e \<noteq> T \<longrightarrow> old \<notin> set (refreshTokens s') \<and> T \<notin> set (token_values s'))"
      using T o d tabs nf ex fresh by simp
  qed
qed

text \<open>
  C2: in a database where token values are unique, a refresh that succeeds leaves the
  table of tokens as it was without the row found for the old value and with one new
  row at the end, which carries the new value, the owner of the old row and the new
  expiry; when the new value differs from the old one, the old row and the old value are
  gone. A refresh that ends with a thrown error, as it does when the rotation fails,
  leaves both tables as they were.
\<close>

theorem refresh_rotation_atomic:
  assumes "store_ok s" "refreshToken L e b s = (resp, s')"
  shows "(\<forall>d m c. resp = SuccessResponse d m c \<longrightarrow>
           (\<exists>T old new a. b_refreshToken b = VStr T \<and> old \<in> set (refreshTokens s)
              \<and> rt_token old = T \<and> d = TokenData a (uuidv4 e)
              \<and> refreshTokens s' = filter (\<lambda>x. rt_id x \<noteq> rt_id old) (refreshTokens s) @ [new]
              \<and> rt_token new = uuidv4 e \<and> rt_userId new = rt_userId old
              \<and> getRefreshTokenExpiry (refreshExpiresIn L) (dateNow e) = Some (rt_expiresAt new)
              \<and> users s' = users s
              \<and> (uuidv4 e \<noteq> T \<longrightarrow> old \<notin> set (refreshTokens s') \<and> T \<notin> set (token_values s'))))
       \<and> (\<forall>x. resp = NextError x \<longrightarrow> refreshTokens s' = refreshTokens s \<and> users s' = users s)"
proof (intro conjI allI impI)
  fix d m c
  assume "resp = SuccessResponse d m c"
  with assms(2) have "refreshToken L e b s = (SuccessResponse d m c, s')" by simp
  from rotation_removes_value [OF assms(1) this]
  show "\<exists>T old new a. b_refreshToken b = VStr T \<and> old \<in> set (refreshTokens s)
              \<and> rt_token old = T \<and> d = TokenData a (uuidv4 e)
              \<and> refreshTokens s' = filter (\<lambda>x. rt_id x \<noteq> rt_id old) (refreshTokens s) @ [new]
              \<and> rt_token new = uuidv4 e \<and> rt_userId new = rt_userId old
              \<and> getRefreshTokenExpiry (refreshExpiresIn L) (dateNow e) = Some (rt_expiresAt new)
              \<and> users s' = users s
              \<and> (uuidv4 e \<noteq> T \<longrightarrow> old \<notin> set (refreshTokens s') \<and> T \<notin> set (token_values s'))"
    by blast
next
  fix x
  assume "resp = NextError x"
  with assms(2) have "refreshToken L e b s = (NextError x, s')" by simp
  from refresh_error_tables [OF this]
  show "refreshTokens s' = refreshTokens s" and "users s' = users s" by simp_all
qed

text \<open>
  C1: in a database where token values are unique, when a refresh with the value \<open>T\<close>
  succeeds and yields a new value different from \<open>T\<close>, no row has the value \<open>T\<close>
  afterwards, and a refresh with \<open>T\<close> is answered with \<open>Invalid refresh token\<close>,
  status 401: at once, and after any sequence of further requests in which \<open>uuidv4\<close>
  does not return \<open>T\<close> again.
\<close>

theorem refresh_one_shot:
  assumes "store_ok s" "b_refreshToken b = VStr T"
    and "refreshToken L e b s = (SuccessResponse (TokenData a T1) m c, s1)" "T1 \<noteq> T"
    and "\<forall>er \<in> set reqs. uuidv4 (fst er) \<noteq> T"
  shows "T \<notin> set (token_values s1)
       \<and> fst (refreshToken L1 e1 b s1) = ErrorResponse ''Invalid refresh token'' 401
       \<and> fst (refreshToken L1 e1 b (serve L2 reqs s1)) = ErrorResponse ''Invalid refresh token'' 401"
proof -
  from rotation_removes_value [OF assms(1,3)] assms(2,4)
  have ne: "T \<noteq> []" and absent: "T \<notin> set (token_values s1)"
    by auto
  have later: "T \<notin> set (token_values (serve L2 reqs s1))"
    using serve_absent [OF absent assms(5)] .
  show ?thesis
    using absent refresh_absent [OF assms(2) ne absent] refresh_absent [OF assms(2) ne later]
    by simp
qed

section \<open>The invariant of the table of tokens\<close>

text \<open>
  Token values are unique and not empty in the empty database, and every request keeps
  them so, as long as \<open>uuidv4\<close> does not return the empty string.
\<close>

lemma handle_store_ok:
  assumes "store_ok s" "uuidv4 e \<noteq> []"
  shows "store_ok (snd (handle L e r s))"
proof (cases r)
  case (Register b)
  then show ?thesis using assms
    by (auto simp: store_ok_def register_def Let_def client_defs token_values_def
      split: option.splits prod.splits sum.splits if_splits jsvalue.splits)
next
  case (Login b)
  then show ?thesis using assms
    by (auto simp: store_ok_def login_def Let_def client_defs token_values_def
      split: option.splits prod.splits sum.splits if_splits jsvalue.splits)
next
  case (Refresh b)
  then show ?thesis using assms
    by (auto simp: store_ok_def refreshToken_def Let_def client_defs token_values_def
        distinct_map_filter
      split: option.splits prod.splits sum.splits if_splits jsvalue.splits)
next
  case (Logout b)
  then show ?thesis using assms
    by (auto simp: store_ok_def logout_def Let_def client_defs token_values_def distinct_map_filter
      split: option.splits prod.splits sum.splits if_splits jsvalue.splits)
next
  case (LogoutAll uid)
  then show ?thesis using assms
    by (auto simp: store_ok_def logoutAll_def Let_def client_defs token_values_def distinct_map_filter
      split: option.splits prod.splits sum.splits if_splits jsvalue.splits)
next
  case (GetMe uid)
  then show ?thesis using assms
    by (auto simp: store_ok_def getMe_def Let_def client_defs token_values_def
      split: option.splits prod.splits sum.splits if_splits jsvalue.splits)
qed

lemma serve_store_ok:
  "store_ok s \<Longrightarrow> \<forall>er \<in> set reqs. uuidv4 (fst er) \<noteq> [] \<Longrightarrow> store_ok (serve L reqs s)"
  by (induction reqs arbitrary: s) (auto simp: handle_store_ok)

lemma store_ok_empty: "store_ok empty_db"
  by (simp add: store_ok_def token_values_def empty_db_def)

section \<open>Runs on the concrete database\<close>

lemmas eval_defs = test_defs falsy_value_def client_defs nullable_string_def Let_def or_null_def
  getRefreshTokenExpiry_def new_Date_def js_plus_def js_times_def parseDuration_def
  duration_match_def is_digit_def parseInt10_def digits_value_def units_def
  generateAccessToken_def emailRegex_test_value_def length_less_def

lemma store_ok_test_db: "store_ok test_db"
  by (simp add: store_ok_def token_values_def test_db_def)

lemma refresh_first:
  "refreshToken test_lib (test_env 5 ''y'') (token_body ''t1'') test_db
     = (SuccessResponse (TokenData ''u1:user@x.com'' ''ty'') ''Token refreshed successfully'' None,
        \<lparr>users = users test_db,
         refreshTokens = [\<lparr>rt_id = ''ry'', rt_token = ''ty'', rt_userId = ''u1'',
                           rt_expiresAt = 604800005, rt_createdAt = 5\<rparr>],
         calls = [RefreshToken_findUnique, Transaction, RefreshToken_delete,
                  RefreshToken_create]\<rparr>)"
  by (simp add: refreshToken_def eval_defs)

theorem logout_cases_witness:
  "fst (logout (token_body ''t1'') test_db)
     = SuccessResponse NoData ''Logged out successfully'' None
   \<and> fst (logout (token_body ''t1'') (snd (logout (token_body ''t1'') test_db)))
     = SuccessResponse NoData ''Logged out successfully'' None
   \<and> fst (refreshToken test_lib (test_env 5 ''y'') (token_body ''t1'')
            (snd (logout (token_body ''t1'') test_db)))
     = ErrorResponse ''Invalid refresh token'' 401
   \<and> logout (credentials ''user@x.com'' ''12345678'') test_db
     = (ErrorResponse ''Refresh token is required'' 400, test_db)"
proof -
  have h: "b_refreshToken (token_body ''t1'') = VStr ''t1'' \<and> ''t1'' \<noteq> []"
    by (simp add: token_body_def)
  have f: "falsy_value (b_refreshToken (credentials ''user@x.com'' ''12345678''))"
    by (simp add: credentials_def falsy_value_def)
  from logout_cases [of "token_body ''t1''" test_db "''t1''", THEN conjunct2, rule_format, OF h]
    logout_cases [of "credentials ''user@x.com'' ''12345678''" test_db "''t1''",
      THEN conjunct1, rule_format, OF f]
  show ?thesis
    by blast
qed

theorem refresh_expired_witness:
  "fst (refreshToken test_lib (test_env 2000 ''y'') (token_body ''t1'') test_db)
     = ErrorResponse ''Refresh token has expired'' 401
   \<and> fst (refreshToken test_lib (test_env 5 ''z'') (token_body ''t1'')
            (snd (refreshToken test_lib (test_env 2000 ''y'') (token_body ''t1'') test_db)))
     = ErrorResponse ''Invalid refresh token'' 401"
proof -
  let ?r = "\<lparr>rt_id = ''r1'', rt_token = ''t1'', rt_userId = ''u1'', rt_expiresAt = 1000,
             rt_createdAt = 1\<rparr>"
  have h: "?r \<in> set (refreshTokens test_db)" "rt_expiresAt ?r < newDate (test_env 2000 ''y'')"
    "b_refreshToken (token_body ''t1'') = VStr (rt_token ?r)"
    by (simp_all add: test_defs)
  from refresh_expired [OF store_ok_test_db h, of test_lib] show ?thesis
    by blast
qed

theorem refresh_one_shot_witness:
  "fst (refreshToken test_lib (test_env 7 ''w'') (token_body ''t1'')
          (snd (refreshToken test_lib (test_env 5 ''y'') (token_body ''t1'') test_db)))
     = ErrorResponse ''Invalid refresh token'' 401
   \<and> fst (refreshToken test_lib (test_env 7 ''w'') (token_body ''t1'')
          (serve test_lib [(test_env 6 ''z'', Login (credentials ''user@x.com'' ''12345678''))]
             (snd (refreshToken test_lib (test_env 5 ''y'') (token_body ''t1'') test_db))))
     = ErrorResponse ''Invalid refresh token'' 401"
proof -
  have h: "b_refreshToken (token_body ''t1'') = VStr ''t1''" "''ty'' \<noteq> ''t1''"
    "\<forall>er \<in> set [(test_env 6 ''z'', Login (credentials ''user@x.com'' ''12345678''))].
        uuidv4 (fst er) \<noteq> ''t1''"
    by (simp_all add: test_defs)
  from refresh_one_shot [OF store_ok_test_db h(1) refresh_first h(2,3), of test_lib "test_env 7 ''w''" test_lib]
  show ?thesis
    by (simp add: refresh_first)
qed

lemma refresh_collision:
  "refreshToken test_lib (test_env 5 ''y'') (token_body ''t1'') test_db2
     = (NextError P2002,
        test_db2\<lparr>calls := [RefreshToken_findUnique, Transaction, RefreshToken_delete,
                            RefreshToken_create]\<rparr>)"
  by (simp add: refreshToken_def test_db2_def eval_defs)

theorem refresh_rotation_atomic_witness:
  "''ty'' \<in> set (token_values
       (snd (refreshToken test_lib (test_env 5 ''y'') (token_body ''t1'') test_db)))
   \<and> ''t1'' \<notin> set (token_values
       (snd (refreshToken test_lib (test_env 5 ''y'') (token_body ''t1'') test_db)))
   \<and> fst (refreshToken test_lib (test_env 5 ''y'') (token_body ''t1'') test_db2)
       = NextError P2002
   \<and> refreshTokens (snd (refreshToken test_lib (test_env 5 ''y'') (token_body ''t1'') test_db2))
       = refreshTokens test_db2"
proof -
  let ?e = "test_env 5 ''y''" and ?b = "token_body ''t1''"
  let ?s = "snd (refreshToken test_lib ?e ?b test_db)"
  have ev: "refreshToken test_lib ?e ?b test_db
      = (SuccessResponse (TokenData ''u1:user@x.com'' ''ty'') ''Token refreshed successfully'' None,
         ?s)"
    by (simp add: refresh_first)
  from refresh_rotation_atomic [OF store_ok_test_db ev, THEN conjunct1, rule_format, OF refl]
  obtain T old new where T: "b_refreshToken ?b = VStr T"
    and tabs: "refreshTokens ?s = filter (\<lambda>x. rt_id x \<noteq> rt_id old) (refreshTokens test_db) @ [new]"
    and new: "rt_token new = uuidv4 ?e"
    and gone: "uuidv4 ?e \<noteq> T \<longrightarrow> old \<notin> set (refreshTokens ?s) \<and> T \<notin> set (token_values ?s)"
    by blast
  have t1: "T = ''t1''" using T by (simp add: token_body_def)
  have ty: "uuidv4 ?e = ''ty''" by (simp add: test_env_def)
  have a: "''ty'' \<in> set (token_values ?s)"
    using tabs new ty by (simp add: token_values_def)
  have b: "''t1'' \<notin> set (token_values ?s)"
    using gone t1 ty by simp
  have ok2: "store_ok test_db2"
    by (simp add: store_ok_def token_values_def test_db2_def test_db_def)
  have c: "refreshTokens (snd (refreshToken test_lib ?e ?b test_db2)) = refreshTokens test_db2"
    using refresh_rotation_atomic [OF ok2 refresh_collision, THEN conjunct2, rule_format, OF refl]
    by (simp add: refresh_collision)
  show ?thesis
    using a b c by (simp add: refresh_collision)
qed

lemma register_first_response:
  "register test_lib (test_env 1 ''x'') (credentials ''user@x.com'' ''12345678'') empty_db
     = (SuccessResponse
         (AuthData [(''id'', JStr ''ux''), (''email'', JStr ''user@x.com''),
                    (''firstName'', JNull), (''lastName'', JNull), (''isActive'', JBool True),
                    (''createdAt'', JDate 1)] ''ux:user@x.com'' ''tx'')
         ''User registered successfully'' (Some 201),
        \<lparr>users = [\<lparr>u_id = ''ux'', u_email = ''user@x.com'', u_password = ''s$12345678'',
                  u_firstName = None, u_lastName = None, u_isActive = True,
                  u_createdAt = 1, u_updatedAt = 1\<rparr>],
         refreshTokens = [\<lparr>rt_id = ''rx'', rt_token = ''tx'', rt_userId = ''ux'',
                          rt_expiresAt = 604800001, rt_createdAt = 1\<rparr>],
         calls = [User_findUnique, User_create, RefreshToken_create]\<rparr>)"
  by (simp add: register_def eval_defs emailRegex_test_def nsa_def is_space_def
      lower_defs select_six opt_str_def)

lemma login_first:
  "login test_lib (test_env 3 ''z'') (credentials ''User@x.com'' ''12345678'') test_db
     = (SuccessResponse
         (AuthData [(''id'', JStr ''u1''), (''email'', JStr ''user@x.com''),
                    (''firstName'', JNull), (''lastName'', JNull), (''isActive'', JBool True),
                    (''createdAt'', JDate 1)] ''u1:user@x.com'' ''tz'')
         ''Login successful'' None,
        test_db\<lparr>refreshTokens := refreshTokens test_db @
                   [\<lparr>rt_id = ''rz'', rt_token = ''tz'', rt_userId = ''u1'',
                     rt_expiresAt = 604800003, rt_createdAt = 3\<rparr>],
                 calls := [User_findUnique, RefreshToken_create]\<rparr>)"
  by (simp add: login_def eval_defs lower_defs opt_str_def)

theorem no_password_in_output_witness:
  "(\<exists>u \<in> set (users test_db).
      fst (login test_lib (test_env 3 ''z'') (credentials ''User@x.com'' ''12345678'') test_db)
        = SuccessResponse
            (AuthData
               [(''id'', JStr (u_id u)), (''email'', JStr (u_email u)),
                (''firstName'', opt_str (u_firstName u)),
                (''lastName'', opt_str (u_lastName u)),
                (''isActive'', JBool (u_isActive u)), (''createdAt'', JDate (u_createdAt u))]
               (jwt_sign test_lib (u_id u) (u_email u) 3) ''tz'')
            ''Login successful'' None)
   \<and> (\<exists>x a t. fst (register test_lib (test_env 1 ''x'')
                       (credentials ''user@x.com'' ''12345678'') empty_db)
                 = SuccessResponse (AuthData x a t) ''User registered successfully'' (Some 201)
               \<and> ''s$12345678'' \<notin> set (map fst x) \<and> JStr ''s$12345678'' \<notin> set (map snd x)
               \<and> a \<noteq> ''s$12345678'' \<and> t \<noteq> ''s$12345678'')"
proof -
  let ?l = "login test_lib (test_env 3 ''z'') (credentials ''User@x.com'' ''12345678'') test_db"
  have ev: "fst ?l = SuccessResponse
         (AuthData [(''id'', JStr ''u1''), (''email'', JStr ''user@x.com''),
                    (''firstName'', JNull), (''lastName'', JNull), (''isActive'', JBool True),
                    (''createdAt'', JDate 1)] ''u1:user@x.com'' ''tz'')
         ''Login successful'' None"
    by (simp add: login_first)
  have e: "int (dateNow (test_env 3 ''z'')) = 3" "uuidv4 (test_env 3 ''z'') = ''tz''"
    by (simp_all add: test_env_def)
  from no_password_in_output [of test_lib "test_env 3 ''z''"
      "credentials ''User@x.com'' ''12345678''" test_db, THEN conjunct2, THEN conjunct1,
      rule_format, OF login_first]
  obtain u where u: "u \<in> set (users test_db)"
    and d: "AuthData [(''id'', JStr ''u1''), (''email'', JStr ''user@x.com''),
                    (''firstName'', JNull), (''lastName'', JNull), (''isActive'', JBool True),
                    (''createdAt'', JDate 1)] ''u1:user@x.com'' ''tz''
          = AuthData
               [(''id'', JStr (u_id u)), (''email'', JStr (u_email u)),
                (''firstName'', opt_str (u_firstName u)),
                (''lastName'', opt_str (u_lastName u)),
                (''isActive'', JBool (u_isActive u)), (''createdAt'', JDate (u_createdAt u))]
               (jwt_sign test_lib (u_id u) (u_email u) (int (dateNow (test_env 3 ''z''))))
               (uuidv4 (test_env 3 ''z''))"
    by blast
  have a: "\<exists>u \<in> set (users test_db).
      fst ?l
        = SuccessResponse
            (AuthData
               [(''id'', JStr (u_id u)), (''email'', JStr (u_email u)),
                (''firstName'', opt_str (u_firstName u)),
                (''lastName'', opt_str (u_lastName u)),
                (''isActive'', JBool (u_isActive u)), (''createdAt'', JDate (u_createdAt u))]
               (jwt_sign test_lib (u_id u) (u_email u) 3) ''tz'')
            ''Login successful'' None"
  proof (rule bexI [OF _ u])
    show "fst ?l
        = SuccessResponse
            (AuthData
               [(''id'', JStr (u_id u)), (''email'', JStr (u_email u)),
                (''firstName'', opt_str (u_firstName u)),
                (''lastName'', opt_str (u_lastName u)),
                (''isActive'', JBool (u_isActive u)), (''createdAt'', JDate (u_createdAt u))]
               (jwt_sign test_lib (u_id u) (u_email u) 3) ''tz'')
            ''Login successful'' None"
      unfolding ev using d [unfolded e] by (simp only:)
  qed
  have b: "\<exists>x a t. fst (register test_lib (test_env 1 ''x'')
                       (credentials ''user@x.com'' ''12345678'') empty_db)
                 = SuccessResponse (AuthData x a t) ''User registered successfully'' (Some 201)
               \<and> ''s$12345678'' \<notin> set (map fst x) \<and> JStr ''s$12345678'' \<notin> set (map snd x)
               \<and> a \<noteq> ''s$12345678'' \<and> t \<noteq> ''s$12345678''"
    unfolding register_first_response by simp
  from a b show ?thesis ..
qed

end
